theory Spec2Isabelle
  imports Main "HOL-Library.Word" "HOL-Library.AList" "HOL-Library.Char_ord"
    "HOL-Library.List_Lexorder"
begin

unbundle bit_operations_syntax

section \<open>Bytes, digests and reference identifiers\<close>

text \<open>
  The reference store of \<^verbatim>\<open>refstore.go\<close> keeps opaque byte streams in files named by
  their Keccak-256 digest and indexes them by SHA-1 as well. Bytes are 8-bit words; a
  Go \<^verbatim>\<open>[]byte\<close> is a list of them; file names and paths are strings.
\<close>

type_synonym byte = "8 word"
type_synonym bytes = "byte list"

definition string_bytes :: "string \<Rightarrow> bytes" where
  "string_bytes s = map of_char s"

text \<open>
  Go's builtin \<^verbatim>\<open>copy(dst, src)\<close> overwrites the first \<open>min (len dst) (len src)\<close>
  elements of \<open>dst\<close>; the function returns the updated destination.
\<close>

definition copy_bytes :: "bytes \<Rightarrow> bytes \<Rightarrow> bytes" where
  "copy_bytes dst src = take (length dst) src @ drop (length src) dst"

text \<open>
  Go's \<^verbatim>\<open>append(arr[:n], elems...)\<close> on a slice of the array \<open>arr\<close>: the slice has
  length \<open>n\<close> and the capacity of the whole array, so the new elements are written into
  the array itself when they fit, and into a fresh copy when they do not. The result is
  the appended slice together with the array as it is afterwards.
\<close>

definition append_slice :: "bytes \<Rightarrow> nat \<Rightarrow> bytes \<Rightarrow> bytes \<times> bytes" where
  "append_slice arr n elems =
     (take n arr @ elems,
      if n + length elems \<le> length arr
      then take n arr @ elems @ drop (n + length elems) arr
      else arr)"

subsection \<open>Hexadecimal text\<close>

definition hexdigit :: "nat \<Rightarrow> char" where
  "hexdigit n = ''0123456789abcdef'' ! n"

definition unhexdigit :: "char \<Rightarrow> nat option" where
  "unhexdigit c = map_of (zip ''0123456789abcdef'' [0, 1, 2, 3, 4, 5, 6, 7, 8, 9, 10, 11, 12, 13, 14, 15]) c"

definition hex_encode :: "bytes \<Rightarrow> string" where
  "hex_encode bs = concat (map (\<lambda>b. [hexdigit (unat b div 16), hexdigit (unat b mod 16)]) bs)"

fun hex_decode :: "string \<Rightarrow> bytes option" where
  "hex_decode [] = Some []"
| "hex_decode [c] = None"
| "hex_decode (c # d # cs) =
     (case unhexdigit c of None \<Rightarrow> None
      | Some hi \<Rightarrow>
        (case unhexdigit d of None \<Rightarrow> None
         | Some lo \<Rightarrow>
           (case hex_decode cs of None \<Rightarrow> None
            | Some bs \<Rightarrow> Some (word_of_nat (16 * hi + lo) # bs))))"

subsection \<open>SHA-1\<close>

text \<open>
  \<^verbatim>\<open>crypto/sha1\<close> of the Go standard library computes SHA-1 as FIPS 180-4 defines it:
  the message is padded to a multiple of 64 bytes and each block updates five 32-bit
  words through an 80-word schedule and 80 rounds.
\<close>

function chunks :: "nat \<Rightarrow> 'a list \<Rightarrow> 'a list list" where
  "chunks n xs = (if n = 0 \<or> xs = [] then [] else take n xs # chunks n (drop n xs))"
  by pat_completeness auto
termination
  by (relation "measure (\<lambda>(n, xs). length xs)") auto

declare chunks.simps [simp del]

definition rotl32 :: "nat \<Rightarrow> 32 word \<Rightarrow> 32 word" where
  "rotl32 n w = push_bit n w OR drop_bit (32 - n) w"

definition be_word32 :: "bytes \<Rightarrow> 32 word" where
  "be_word32 bs = foldl (\<lambda>w b. push_bit 8 w OR ucast b) 0 bs"

definition be_bytes32 :: "32 word \<Rightarrow> bytes" where
  "be_bytes32 w = map (\<lambda>i. ucast (drop_bit (8 * i) w)) [3, 2, 1, 0]"

definition be_bytes64 :: "64 word \<Rightarrow> bytes" where
  "be_bytes64 w = map (\<lambda>i. ucast (drop_bit (8 * i) w)) [7, 6, 5, 4, 3, 2, 1, 0]"

definition sha1_pad :: "bytes \<Rightarrow> bytes" where
  "sha1_pad m = m @ [0x80] @ replicate ((119 - length m mod 64) mod 64) 0
                  @ be_bytes64 (word_of_nat (8 * length m))"

definition sha1_expand_step :: "nat \<Rightarrow> 32 word list \<Rightarrow> 32 word list" where
  "sha1_expand_step t w =
     w @ [rotl32 1 (w ! (t - 3) XOR w ! (t - 8) XOR w ! (t - 14) XOR w ! (t - 16))]"

definition sha1_schedule :: "bytes \<Rightarrow> 32 word list" where
  "sha1_schedule block = fold sha1_expand_step [16..<80] (map be_word32 (chunks 4 block))"

definition sha1_f :: "nat \<Rightarrow> 32 word \<Rightarrow> 32 word \<Rightarrow> 32 word \<Rightarrow> 32 word" where
  "sha1_f t b c d =
     (if t < 20 then (b AND c) OR (NOT b AND d)
      else if t < 40 then b XOR c XOR d
      else if t < 60 then (b AND c) OR (b AND d) OR (c AND d)
      else b XOR c XOR d)"

definition sha1_k :: "nat \<Rightarrow> 32 word" where
  "sha1_k t =
     (if t < 20 then 0x5A827999 else if t < 40 then 0x6ED9EBA1
      else if t < 60 then 0x8F1BBCDC else 0xCA62C1D6)"

fun sha1_round :: "32 word list \<Rightarrow> nat \<Rightarrow> 32 word list \<Rightarrow> 32 word list" where
  "sha1_round w t [a, b, c, d, e] =
     [rotl32 5 a + sha1_f t b c d + e + sha1_k t + w ! t, a, rotl32 30 b, c, d]"
| "sha1_round w t v = v"

definition sha1_block :: "32 word list \<Rightarrow> bytes \<Rightarrow> 32 word list" where
  "sha1_block h block = map2 (+) h (fold (sha1_round (sha1_schedule block)) [0..<80] h)"

definition sha1_init :: "32 word list" where
  "sha1_init = [0x67452301, 0xEFCDAB89, 0x98BADCFE, 0x10325476, 0xC3D2E1F0]"

definition sha1 :: "bytes \<Rightarrow> bytes" where
  "sha1 m = concat (map be_bytes32 (foldl sha1_block sha1_init (chunks 64 (sha1_pad m))))"

subsection \<open>Keccak-256\<close>

text \<open>
  \<^verbatim>\<open>sha3.NewLegacyKeccak256\<close> is the Keccak submission with rate 136 bytes, the padding
  byte \<open>0x01\<close> (NIST SHA3-256 pads with \<open>0x06\<close>) and 32 bytes of output. The state is 25
  lanes of 64 bits, lane \<open>(x, y)\<close> at index \<open>x + 5 * y\<close>, bytes little-endian within a lane.
\<close>

definition rotl64 :: "nat \<Rightarrow> 64 word \<Rightarrow> 64 word" where
  "rotl64 n w = push_bit n w OR drop_bit (64 - n) w"

definition le_word64 :: "bytes \<Rightarrow> 64 word" where
  "le_word64 bs = foldr (\<lambda>b w. push_bit 8 w OR ucast b) bs 0"

definition le_bytes64 :: "64 word \<Rightarrow> bytes" where
  "le_bytes64 w = map (\<lambda>i. ucast (drop_bit (8 * i) w)) [0, 1, 2, 3, 4, 5, 6, 7]"

definition keccak_pad :: "bytes \<Rightarrow> bytes" where
  "keccak_pad m =
     (if length m mod 136 = 135 then m @ [0x81]
      else m @ [0x01] @ replicate (134 - length m mod 136) 0 @ [0x80])"

definition keccak_rc :: "64 word list" where
  "keccak_rc =
    [0x0000000000000001, 0x0000000000008082, 0x800000000000808A, 0x8000000080008000,
     0x000000000000808B, 0x0000000080000001, 0x8000000080008081, 0x8000000000008009,
     0x000000000000008A, 0x0000000000000088, 0x0000000080008009, 0x000000008000000A,
     0x000000008000808B, 0x800000000000008B, 0x8000000000008089, 0x8000000000008003,
     0x8000000000008002, 0x8000000000000080, 0x000000000000800A, 0x800000008000000A,
     0x8000000080008081, 0x8000000000008080, 0x0000000080000001, 0x8000000080008008]"

definition keccak_rot :: "nat list" where
  "keccak_rot =
    [0, 1, 62, 28, 27,  36, 44, 6, 55, 20,  3, 10, 43, 25, 39,
     41, 45, 15, 21, 8,  18, 2, 61, 56, 14]"

definition theta_C :: "64 word list \<Rightarrow> 64 word list" where
  "theta_C A =
     map (\<lambda>x. A ! x XOR A ! (x + 5) XOR A ! (x + 10) XOR A ! (x + 15) XOR A ! (x + 20)) [0..<5]"

definition theta_D :: "64 word list \<Rightarrow> 64 word list" where
  "theta_D C = map (\<lambda>x. C ! ((x + 4) mod 5) XOR rotl64 1 (C ! ((x + 1) mod 5))) [0..<5]"

definition theta_apply :: "64 word list \<Rightarrow> 64 word list \<Rightarrow> 64 word list" where
  "theta_apply A D = map (\<lambda>i. A ! i XOR D ! (i mod 5)) [0..<25]"

definition theta :: "64 word list \<Rightarrow> 64 word list" where
  "theta A = theta_apply A (theta_D (theta_C A))"

text \<open>
  The steps rho and pi together: lane \<open>(x, y)\<close>, rotated by its offset, moves to
  \<open>(y, 2 * x + 3 * y)\<close>; \<open>pi_src j\<close> is the index whose lane arrives at index \<open>j\<close>.
\<close>

definition pi_src :: "nat \<Rightarrow> nat" where
  "pi_src j = (j mod 5 + 3 * (j div 5)) mod 5 + 5 * (j mod 5)"

definition rho_pi :: "64 word list \<Rightarrow> 64 word list" where
  "rho_pi A = map (\<lambda>j. rotl64 (keccak_rot ! pi_src j) (A ! pi_src j)) [0..<25]"

definition chi :: "64 word list \<Rightarrow> 64 word list" where
  "chi B = map (\<lambda>j. B ! j XOR (NOT (B ! ((j + 1) mod 5 + 5 * (j div 5)))
                              AND B ! ((j + 2) mod 5 + 5 * (j div 5)))) [0..<25]"

definition iota :: "64 word \<Rightarrow> 64 word list \<Rightarrow> 64 word list" where
  "iota rc A = A[0 := A ! 0 XOR rc]"

definition keccak_round :: "64 word \<Rightarrow> 64 word list \<Rightarrow> 64 word list" where
  "keccak_round rc A = iota rc (chi (rho_pi (theta A)))"

definition keccak_f :: "64 word list \<Rightarrow> 64 word list" where
  "keccak_f A = fold keccak_round keccak_rc A"

definition keccak_absorb :: "64 word list \<Rightarrow> bytes \<Rightarrow> 64 word list" where
  "keccak_absorb A block =
     keccak_f (map2 (XOR) A (map le_word64 (chunks 8 block) @ replicate 8 0))"

definition keccak256 :: "bytes \<Rightarrow> bytes" where
  "keccak256 m =
     concat (map le_bytes64
       (take 4 (foldl keccak_absorb (replicate 25 0) (chunks 136 (keccak_pad m)))))"

section \<open>The types package\<close>

text \<open>
  \<^verbatim>\<open>types.Hash\<close> is a 32-byte array: \<^verbatim>\<open>StoreObject\<close> copies both digests into one
  and slices \<^verbatim>\<open>sha1Hash[:20]\<close>. A hash is a list of bytes here; the values the store
  itself builds have length 32 (\<open>copy_bytes zero_Hash\<close>).
\<close>

type_synonym Hash = bytes

definition zero_Hash :: Hash where
  "zero_Hash = replicate 32 0"

datatype HashAlg = HashAlgUnknown | SHA1 | SHA3

record RefID =
  HashAlg :: HashAlg
  Hash :: Hash

datatype error =
    Err404
  | ErrKeyNotFound
  | ErrNotExist
  | ErrClosed
  | ErrUnknownHashType
  | ErrIO string
  | ErrIndex
  | ErrJSON
  | ErrBadHex
  | ErrBadRefID
  | ErrBadPattern
  | ErrWrap string error

text \<open>
  Modelled from the spec: \<^verbatim>\<open>Hash.Hex\<close> of the types package, which is not among the
  sources at hand. The spec gives the form: lowercase, no separators, no prefix.
\<close>

definition Hex :: "Hash \<Rightarrow> string" where
  "Hex h = hex_encode h"

text \<open>
  Modelled from the spec: \<^verbatim>\<open>types.HashFromHex\<close>, not among the sources at hand. The
  spec has \<^verbatim>\<open>AllHashes\<close> skip every file name that is not a hex digest of the expected
  length, which is 64 digits for the blobs directory.
\<close>

definition HashFromHex :: "string \<Rightarrow> error + Hash" where
  "HashFromHex str =
     (case hex_decode str of
        None \<Rightarrow> Inl ErrBadHex
      | Some bs \<Rightarrow> if length bs = 32 then Inr bs else Inl ErrBadHex)"

text \<open>
  Modelled from the spec: \<^verbatim>\<open>RefID.MarshalText\<close> and \<^verbatim>\<open>RefID.UnmarshalText\<close>, not
  among the sources at hand. The text form is \<^verbatim>\<open><alg>:<hex>\<close> with \<^verbatim>\<open>sha1\<close> or
  \<^verbatim>\<open>sha3\<close> for the algorithm and 40 or 64 lowercase hex digits; a SHA-1 digest occupies
  the first 20 bytes of its 32-byte cell.
\<close>

definition MarshalText :: "RefID \<Rightarrow> error + string" where
  "MarshalText refID =
     (case HashAlg refID of
        SHA1 \<Rightarrow> Inr (''sha1:'' @ Hex (take 20 (Hash refID)))
      | SHA3 \<Rightarrow> Inr (''sha3:'' @ Hex (Hash refID))
      | HashAlgUnknown \<Rightarrow> Inl ErrBadRefID)"

definition UnmarshalText :: "string \<Rightarrow> error + RefID" where
  "UnmarshalText str =
     (if take 5 str = ''sha1:'' then
        (case hex_decode (drop 5 str) of
           None \<Rightarrow> Inl ErrBadRefID
         | Some bs \<Rightarrow>
             if length bs = 20
             then Inr \<lparr>HashAlg = SHA1, Hash = copy_bytes zero_Hash bs\<rparr>
             else Inl ErrBadRefID)
      else if take 5 str = ''sha3:'' then
        (case hex_decode (drop 5 str) of
           None \<Rightarrow> Inl ErrBadRefID
         | Some bs \<Rightarrow>
             if length bs = 32
             then Inr \<lparr>HashAlg = SHA3, Hash = copy_bytes zero_Hash bs\<rparr>
             else Inl ErrBadRefID)
      else Inl ErrBadRefID)"

text \<open>
  Modelled from the spec: \<^verbatim>\<open>utils.Annotate\<close>, not among the sources at hand. Errors
  are propagated with context: a non-nil error is wrapped with the message, nil stays nil.
\<close>

definition Annotate :: "string \<Rightarrow> error option \<Rightarrow> error option" where
  "Annotate msg err = map_option (ErrWrap msg) err"

section \<open>Paths\<close>

text \<open>
  \<^verbatim>\<open>filepath.Join\<close> of the Go standard library on a system whose separator is the
  slash: the elements from the first non-empty one on are joined with the separator and
  the result is cleaned (\<^verbatim>\<open>filepath.Clean\<close>: empty and dot elements dropped, a dot-dot
  element cancels the element before it).
\<close>

fun split_slash :: "string \<Rightarrow> string list" where
  "split_slash [] = [[]]"
| "split_slash (c # cs) =
     (if c = CHR ''/'' then [] # split_slash cs
      else (case split_slash cs of [] \<Rightarrow> [[c]] | x # xs \<Rightarrow> (c # x) # xs))"

fun join_slash :: "string list \<Rightarrow> string" where
  "join_slash [] = []"
| "join_slash [x] = x"
| "join_slash (x # y # ys) = x @ ''/'' @ join_slash (y # ys)"

definition clean_step :: "bool \<Rightarrow> string list \<Rightarrow> string \<Rightarrow> string list" where
  "clean_step rooted stack elem =
     (if elem = [] \<or> elem = ''.'' then stack
      else if elem = ''..'' then
        (case stack of
           [] \<Rightarrow> if rooted then [] else [''..'']
         | prev # rest \<Rightarrow> if prev = ''..'' then ''..'' # stack else rest)
      else elem # stack)"

definition filepath_Clean :: "string \<Rightarrow> string" where
  "filepath_Clean path =
     (if path = [] then ''.''
      else if hd path = CHR ''/''
      then ''/'' @ join_slash (rev (foldl (clean_step True) [] (split_slash path)))
      else if foldl (clean_step False) [] (split_slash path) = [] then ''.''
      else join_slash (rev (foldl (clean_step False) [] (split_slash path))))"

definition filepath_Join :: "string list \<Rightarrow> string" where
  "filepath_Join elems =
     (if dropWhile (\<lambda>e. e = []) elems = [] then []
      else filepath_Clean (join_slash (dropWhile (\<lambda>e. e = []) elems)))"

section \<open>The store and its environment\<close>

text \<open>
  The value under the key \<^verbatim>\<open>missing-refs\<close> is JSON text. It is kept as what
  \<^verbatim>\<open>json.Unmarshal\<close> into a \<^verbatim>\<open>map[string]interface{}\<close> makes of it: a syntax or type
  error, the nil map (JSON \<^verbatim>\<open>null\<close>), or an object, of which only the keys matter.
  \<^verbatim>\<open>json.Marshal\<close> of a map writes the object back, and \<^verbatim>\<open>null\<close> for the nil map.
  Go ranges over a map in no fixed order; the keys are a list here and every statement
  about a result of \<^verbatim>\<open>RefsNeeded\<close> is about its set of elements.
\<close>

datatype json_doc = JSONInvalid | JSONNull | JSONObject "string list"

text \<open>
  The state of a started \<^verbatim>\<open>refStore\<close>: its root path, the regular files directly under
  the root (the temporary files), the files of the directory \<^verbatim>\<open>blobs\<close> under the root by
  name, and the badger database. The database holds the two mapping families, whose
  keys are 25 and 37 bytes long, and the 12-byte key \<^verbatim>\<open>missing-refs\<close>; the model keeps
  the latter in a field of its own. The file that \<^verbatim>\<open>filepathForSHA3Blob\<close> names is the
  entry \<open>Hex sha3Hash\<close> of the blobs directory; the entries are regular files. Listeners
  and the mutexes are left out: the model is sequential and callbacks are taken not to
  touch the store.
\<close>

record refStore =
  rootPath :: string
  root_files :: "string \<rightharpoonup> bytes"
  blob_files :: "(string \<times> bytes) list"
  metadata :: "bytes \<rightharpoonup> bytes"
  missing_refs :: "json_doc option"

text \<open>
  What the operating system and the database may do to one call: which operations
  fail, and the random names \<^verbatim>\<open>ioutil.TempFile\<close> draws. \<open>Copy_fails = Some n\<close> makes
  \<^verbatim>\<open>io.Copy\<close> fail (on the reader or on the file) after \<open>n\<close> bytes have reached the file.
  \<open>Stat_fails\<close> and \<open>View_fails\<close> are failures other than not-exist and key-not-found.
\<close>

record faults =
  MkdirAll_fails :: bool
  TempFile_draws :: "string list"
  Copy_fails :: "nat option"
  Close_fails :: bool
  Rename_fails :: bool
  Stat_fails :: bool
  Open_fails :: bool
  Glob_fails :: bool
  View_fails :: bool
  Update_mapping_fails :: bool
  Update_missing_fails :: bool

definition no_faults :: faults where
  "no_faults =
     \<lparr>MkdirAll_fails = False, TempFile_draws = [''000000001''], Copy_fails = None,
      Close_fails = False, Rename_fails = False, Stat_fails = False, Open_fails = False,
      Glob_fails = False, View_fails = False, Update_mapping_fails = False,
      Update_missing_fails = False\<rparr>"

definition ensureRootPath :: "faults \<Rightarrow> error option" where
  "ensureRootPath f = (if MkdirAll_fails f then Some (ErrIO ''mkdir'') else None)"

definition filepathForSHA3Blob :: "refStore \<Rightarrow> Hash \<Rightarrow> string" where
  "filepathForSHA3Blob s sha3Hash = filepath_Join [rootPath s, ''blobs'', Hex sha3Hash]"

definition os_Stat :: "faults \<Rightarrow> refStore \<Rightarrow> string \<Rightarrow> error + nat" where
  "os_Stat f s name =
     (if Stat_fails f then Inl (ErrIO ''stat'')
      else (case map_of (blob_files s) name of
              None \<Rightarrow> Inl ErrNotExist
            | Some content \<Rightarrow> Inr (length content)))"

definition os_Open :: "faults \<Rightarrow> refStore \<Rightarrow> string \<Rightarrow> error + bytes" where
  "os_Open f s name =
     (if Open_fails f then Inl (ErrIO ''open'')
      else (case map_of (blob_files s) name of
              None \<Rightarrow> Inl ErrNotExist
            | Some content \<Rightarrow> Inr content))"

text \<open>\<^verbatim>\<open>txn.Get\<close> inside \<^verbatim>\<open>metadata.View\<close>.\<close>

definition View_Get :: "faults \<Rightarrow> refStore \<Rightarrow> bytes \<Rightarrow> error + bytes" where
  "View_Get f s key =
     (if View_fails f then Inl ErrIndex
      else (case metadata s key of None \<Rightarrow> Inl ErrKeyNotFound | Some val \<Rightarrow> Inr val))"

definition sha3ForSHA1 :: "faults \<Rightarrow> refStore \<Rightarrow> Hash \<Rightarrow> error + Hash" where
  "sha3ForSHA1 f s hash =
     (case View_Get f s (fst (append_slice hash 20 (string_bytes '':sha3''))) of
        Inl err \<Rightarrow> if err = ErrKeyNotFound then Inl Err404 else Inl err
      | Inr val \<Rightarrow> Inr (copy_bytes zero_Hash val))"

definition sha1ForSHA3 :: "faults \<Rightarrow> refStore \<Rightarrow> Hash \<Rightarrow> error + Hash" where
  "sha1ForSHA3 f s hash =
     (case View_Get f s (fst (append_slice hash (length hash) (string_bytes '':sha1''))) of
        Inl err \<Rightarrow> if err = ErrKeyNotFound then Inl Err404 else Inl err
      | Inr val \<Rightarrow> Inr (copy_bytes zero_Hash val))"

text \<open>The tail of \<^verbatim>\<open>HaveObject\<close>: \<^verbatim>\<open>os.Stat\<close> of the canonical file.\<close>

definition HaveObject_stat :: "faults \<Rightarrow> refStore \<Rightarrow> Hash \<Rightarrow> error + bool" where
  "HaveObject_stat f s sha3 =
     (case os_Stat f s (Hex sha3) of
        Inl err \<Rightarrow> if err = ErrNotExist then Inr False else Inl (ErrWrap ''stack'' err)
      | Inr stat \<Rightarrow> Inr True)"

definition HaveObject :: "faults \<Rightarrow> refStore \<Rightarrow> RefID \<Rightarrow> error + bool" where
  "HaveObject f s refID =
     (case HashAlg refID of
        SHA1 \<Rightarrow>
          (case sha3ForSHA1 f s (Hash refID) of
             Inl err \<Rightarrow> if err = Err404 then Inr False else Inl err
           | Inr sha3 \<Rightarrow> HaveObject_stat f s sha3)
      | SHA3 \<Rightarrow> HaveObject_stat f s (Hash refID)
      | HashAlgUnknown \<Rightarrow> Inl ErrUnknownHashType)"

definition objectBySHA3 :: "faults \<Rightarrow> refStore \<Rightarrow> Hash \<Rightarrow> error + bytes \<times> int" where
  "objectBySHA3 f s sha3Hash =
     (case os_Stat f s (Hex sha3Hash) of
        Inl err \<Rightarrow> Inl err
      | Inr stat \<Rightarrow>
          (case os_Open f s (Hex sha3Hash) of
             Inl err \<Rightarrow> Inl err
           | Inr content \<Rightarrow> Inr (content, int stat)))"

definition objectBySHA1 :: "faults \<Rightarrow> refStore \<Rightarrow> Hash \<Rightarrow> error + bytes \<times> int" where
  "objectBySHA1 f s hash =
     (case sha3ForSHA1 f s hash of
        Inl err \<Rightarrow> Inl err
      | Inr sha3 \<Rightarrow> objectBySHA3 f s sha3)"

text \<open>
  \<^verbatim>\<open>Object\<close> returns an open file and its size; the model returns the bytes a reader
  of the file gets, and the size.
\<close>

definition Object :: "faults \<Rightarrow> refStore \<Rightarrow> RefID \<Rightarrow> error + bytes \<times> int" where
  "Object f s refID =
     (case ensureRootPath f of
        Some err \<Rightarrow> Inl err
      | None \<Rightarrow>
          (case HashAlg refID of
             SHA1 \<Rightarrow> objectBySHA1 f s (Hash refID)
           | SHA3 \<Rightarrow> objectBySHA3 f s (Hash refID)
           | HashAlgUnknown \<Rightarrow> Inl ErrUnknownHashType))"

definition ObjectFilepath :: "faults \<Rightarrow> refStore \<Rightarrow> RefID \<Rightarrow> error + string" where
  "ObjectFilepath f s refID =
     (case HashAlg refID of
        SHA1 \<Rightarrow>
          (case sha3ForSHA1 f s (Hash refID) of
             Inl err \<Rightarrow> Inl err
           | Inr sha3Hash \<Rightarrow> Inr (filepathForSHA3Blob s sha3Hash))
      | SHA3 \<Rightarrow> Inr (filepathForSHA3Blob s (Hash refID))
      | HashAlgUnknown \<Rightarrow> Inl ErrUnknownHashType)"

subsection \<open>The set of needed refs\<close>

fun RefsNeeded_loop :: "string list \<Rightarrow> RefID list" where
  "RefsNeeded_loop [] = []"
| "RefsNeeded_loop (refIDStr # rest) =
     (case UnmarshalText refIDStr of
        Inl err \<Rightarrow> RefsNeeded_loop rest
      | Inr refID \<Rightarrow> refID # RefsNeeded_loop rest)"

definition RefsNeeded :: "faults \<Rightarrow> refStore \<Rightarrow> error + RefID list" where
  "RefsNeeded f s =
     (if View_fails f then Inl ErrIndex
      else (case missing_refs s of
              None \<Rightarrow> Inr []
            | Some JSONInvalid \<Rightarrow> Inl ErrJSON
            | Some JSONNull \<Rightarrow> Inr []
            | Some (JSONObject keys) \<Rightarrow> Inr (RefsNeeded_loop keys)))"

text \<open>
  The head of both missing-refs transactions: read the key and decode it. The result
  is the Go map, \<open>None\<close> for the nil map that JSON \<^verbatim>\<open>null\<close> decodes to.
\<close>

definition load_missingRefs :: "faults \<Rightarrow> refStore \<Rightarrow> error + string list option" where
  "load_missingRefs f s =
     (if Update_missing_fails f then Inl ErrIndex
      else (case missing_refs s of
              None \<Rightarrow> Inr (Some [])
            | Some JSONInvalid \<Rightarrow> Inl ErrJSON
            | Some JSONNull \<Rightarrow> Inr None
            | Some (JSONObject keys) \<Rightarrow> Inr (Some keys)))"

definition json_Marshal :: "string list option \<Rightarrow> json_doc" where
  "json_Marshal missingRefs =
     (case missingRefs of None \<Rightarrow> JSONNull | Some keys \<Rightarrow> JSONObject keys)"

fun actuallyNeeded :: "faults \<Rightarrow> refStore \<Rightarrow> RefID list \<Rightarrow> RefID list" where
  "actuallyNeeded f s [] = []"
| "actuallyNeeded f s (refID # refs) =
     (case HaveObject f s refID of
        Inl err \<Rightarrow> actuallyNeeded f s refs
      | Inr have \<Rightarrow>
          if \<not> have then refID # actuallyNeeded f s refs else actuallyNeeded f s refs)"

text \<open>
  The loop that writes the needed refs into the map. Assigning to an entry of the nil
  map panics in Go: the result \<open>None\<close>.
\<close>

fun mark_loop :: "string list option \<Rightarrow> RefID list \<Rightarrow> string list option option" where
  "mark_loop missingRefs [] = Some missingRefs"
| "mark_loop missingRefs (refID # refs) =
     (case MarshalText refID of
        Inl err \<Rightarrow> mark_loop missingRefs refs
      | Inr refIDStr \<Rightarrow>
          (case missingRefs of
             None \<Rightarrow> None
           | Some keys \<Rightarrow> mark_loop (Some (List.insert refIDStr keys)) refs))"

text \<open>
  \<^verbatim>\<open>MarkRefsAsNeeded\<close> returns nothing; the model returns the store afterwards, or
  \<open>None\<close> when the call panics. A failed transaction is logged and changes nothing.
\<close>

definition MarkRefsAsNeeded :: "faults \<Rightarrow> refStore \<Rightarrow> RefID list \<Rightarrow> refStore option" where
  "MarkRefsAsNeeded f s refs =
     (case load_missingRefs f s of
        Inl err \<Rightarrow> Some s
      | Inr missingRefs \<Rightarrow>
          (case mark_loop missingRefs (actuallyNeeded f s refs) of
             None \<Rightarrow> None
           | Some missingRefs' \<Rightarrow> Some (s\<lparr>missing_refs := Some (json_Marshal missingRefs')\<rparr>)))"

fun unmark_loop :: "string list option \<Rightarrow> RefID list \<Rightarrow> string list option" where
  "unmark_loop missingRefs [] = missingRefs"
| "unmark_loop missingRefs (refID # refs) =
     (case MarshalText refID of
        Inl err \<Rightarrow> unmark_loop missingRefs refs
      | Inr refIDStr \<Rightarrow> unmark_loop (map_option (removeAll refIDStr) missingRefs) refs)"

definition unmarkRefsAsNeeded :: "faults \<Rightarrow> refStore \<Rightarrow> RefID list \<Rightarrow> refStore" where
  "unmarkRefsAsNeeded f s refs =
     (case load_missingRefs f s of
        Inl err \<Rightarrow> s
      | Inr missingRefs \<Rightarrow>
          s\<lparr>missing_refs := Some (json_Marshal (unmark_loop missingRefs refs))\<rparr>)"

subsection \<open>Storing and listing\<close>

text \<open>
  \<^verbatim>\<open>ioutil.TempFile\<close> draws random names until one does not exist yet, at most 10000.
\<close>

definition TempFile :: "faults \<Rightarrow> refStore \<Rightarrow> string option" where
  "TempFile f s =
     find (\<lambda>name. root_files s name = None)
       (map (\<lambda>r. ''temp-'' @ r) (take 10000 (TempFile_draws f)))"

text \<open>
  The index transaction of \<^verbatim>\<open>StoreObject\<close>. The first key is
  \<^verbatim>\<open>append(sha1Hash[:20], ":sha3"...)\<close>: the slice has the capacity of the array, so the
  suffix is written into bytes 20 to 24 of the named result \<open>sha1Hash\<close> itself, whether
  or not the transaction commits. The result is the array afterwards and the store.
\<close>

definition store_mapping ::
  "faults \<Rightarrow> refStore \<Rightarrow> Hash \<Rightarrow> Hash \<Rightarrow> Hash \<times> error option \<times> refStore" where
  "store_mapping f s sha1Hash sha3Hash =
     (case append_slice sha1Hash 20 (string_bytes '':sha3'') of
        (key1, sha1Hash') \<Rightarrow>
          if Update_mapping_fails f then (sha1Hash', Some ErrIndex, s)
          else (sha1Hash', None,
                s\<lparr>metadata := (metadata s)
                   (key1 \<mapsto> sha3Hash,
                    fst (append_slice sha3Hash (length sha3Hash) (string_bytes '':sha1''))
                      \<mapsto> take 20 sha1Hash')\<rparr>))"

text \<open>
  Writing the temporary file under the root, and \<^verbatim>\<open>os.Rename\<close> of it to a name in
  the blobs directory, which replaces a file that is already there.
\<close>

definition write_temp :: "refStore \<Rightarrow> string \<Rightarrow> bytes \<Rightarrow> refStore" where
  "write_temp s tmpFile content = s\<lparr>root_files := (root_files s)(tmpFile \<mapsto> content)\<rparr>"

definition os_Rename :: "refStore \<Rightarrow> string \<Rightarrow> string \<Rightarrow> refStore" where
  "os_Rename s tmpFile name =
     (case root_files s tmpFile of
        None \<Rightarrow> s
      | Some content \<Rightarrow>
          s\<lparr>root_files := (root_files s)(tmpFile := None),
            blob_files := AList.update name content (blob_files s)\<rparr>)"

text \<open>
  \<^verbatim>\<open>StoreObject\<close> returns both hashes and the error; the model adds the store
  afterwards. The reader is the byte sequence it delivers. The deferred \<^verbatim>\<open>Close\<close>
  replaces the error only where the file is still open, which is after a failed copy;
  everywhere else it reports \<^verbatim>\<open>os.ErrClosed\<close>, which is ignored. No path removes the
  temporary file.
\<close>

definition StoreObject ::
  "faults \<Rightarrow> refStore \<Rightarrow> bytes \<Rightarrow> (Hash \<times> Hash \<times> error option) \<times> refStore" where
  "StoreObject f s reader =
     (case ensureRootPath f of
        Some err \<Rightarrow>
          ((zero_Hash, zero_Hash, Annotate ''refStore.StoreObject'' (Some err)), s)
      | None \<Rightarrow>
      (case TempFile f s of
        None \<Rightarrow>
          ((zero_Hash, zero_Hash,
            Annotate ''refStore.StoreObject'' (Some (ErrIO ''tempfile''))), s)
      | Some tmpFile \<Rightarrow>
      (case Copy_fails f of
        Some n \<Rightarrow>
          ((zero_Hash, zero_Hash,
            Annotate ''refStore.StoreObject''
              (Some (if Close_fails f then ErrIO ''close'' else ErrIO ''copy''))),
           write_temp s tmpFile (take n reader))
      | None \<Rightarrow>
          if Close_fails f then
            ((zero_Hash, zero_Hash,
              Annotate ''refStore.StoreObject'' (Some (ErrIO ''close''))),
             write_temp s tmpFile reader)
          else if Rename_fails f then
            ((copy_bytes zero_Hash (sha1 reader), copy_bytes zero_Hash (keccak256 reader),
              Annotate ''refStore.StoreObject'' (Some (ErrIO ''rename''))),
             write_temp s tmpFile reader)
          else
            (case store_mapping f
                    (os_Rename (write_temp s tmpFile reader) tmpFile
                       (Hex (copy_bytes zero_Hash (keccak256 reader))))
                    (copy_bytes zero_Hash (sha1 reader))
                    (copy_bytes zero_Hash (keccak256 reader)) of
               (sha1Hash, Some err, s') \<Rightarrow>
                 ((sha1Hash, copy_bytes zero_Hash (keccak256 reader),
                   Annotate ''refStore.StoreObject''
                     (Some (ErrWrap ''error saving sha1<->sha3 mapping for ref'' err))),
                  s')
             | (sha1Hash, None, s') \<Rightarrow>
                 ((sha1Hash, copy_bytes zero_Hash (keccak256 reader), None),
                  unmarkRefsAsNeeded f s'
                    [\<lparr>HashAlg = SHA1, Hash = sha1Hash\<rparr>,
                     \<lparr>HashAlg = SHA3, Hash = copy_bytes zero_Hash (keccak256 reader)\<rparr>])))))"

fun AllHashes_loop :: "faults \<Rightarrow> refStore \<Rightarrow> string list \<Rightarrow> RefID list" where
  "AllHashes_loop f s [] = []"
| "AllHashes_loop f s (match # matches) =
     (case HashFromHex match of
        Inl err \<Rightarrow> AllHashes_loop f s matches
      | Inr sha3Hash \<Rightarrow>
          (case sha1ForSHA3 f s sha3Hash of
             Inl err \<Rightarrow> \<lparr>HashAlg = SHA3, Hash = sha3Hash\<rparr> # AllHashes_loop f s matches
           | Inr sha1Hash \<Rightarrow>
               \<lparr>HashAlg = SHA3, Hash = sha3Hash\<rparr> # \<lparr>HashAlg = SHA1, Hash = sha1Hash\<rparr>
                 # AllHashes_loop f s matches))"

text \<open>\<^verbatim>\<open>filepath.Glob\<close> lists the names of the blobs directory in sorted order.\<close>

definition AllHashes :: "faults \<Rightarrow> refStore \<Rightarrow> error + RefID list" where
  "AllHashes f s =
     (case ensureRootPath f of
        Some err \<Rightarrow> Inl err
      | None \<Rightarrow>
          if Glob_fails f then Inl ErrBadPattern
          else Inr (AllHashes_loop f s (sort (map fst (blob_files s)))))"

section \<open>Notions the properties are stated with\<close>

text \<open>
  An environment that injects no failure into a call on store \<open>s\<close>: every operation
  succeeds and \<^verbatim>\<open>ioutil.TempFile\<close> finds an unused name.
\<close>

definition fault_free :: "faults \<Rightarrow> refStore \<Rightarrow> bool" where
  "fault_free f s \<longleftrightarrow>
     \<not> MkdirAll_fails f \<and> TempFile f s \<noteq> None \<and> Copy_fails f = None \<and>
     \<not> Close_fails f \<and> \<not> Rename_fails f \<and> \<not> Stat_fails f \<and> \<not> Open_fails f \<and>
     \<not> Glob_fails f \<and> \<not> View_fails f \<and> \<not> Update_mapping_fails f \<and>
     \<not> Update_missing_fails f"

text \<open>
  A reference in canonical form: the hash fills its 32-byte cell, and a SHA-1 digest
  leaves the last 12 bytes zero.
\<close>

definition canonical_RefID :: "RefID \<Rightarrow> bool" where
  "canonical_RefID refID \<longleftrightarrow>
     length (Hash refID) = 32 \<and>
     (case HashAlg refID of
        SHA1 \<Rightarrow> drop 20 (Hash refID) = replicate 12 0
      | SHA3 \<Rightarrow> True
      | HashAlgUnknown \<Rightarrow> False)"


text \<open>
  The canonical form of a reference: the same algorithm and digest, with zeros after a
  SHA-1 digest. It is the reference that the text form of the given one denotes.
\<close>

definition canonical_form :: "RefID \<Rightarrow> RefID" where
  "canonical_form refID =
     (case HashAlg refID of
        SHA1 \<Rightarrow> \<lparr>HashAlg = SHA1, Hash = take 20 (Hash refID) @ replicate 12 0\<rparr>
      | SHA3 \<Rightarrow> refID
      | HashAlgUnknown \<Rightarrow> refID)"

text \<open>
  A path element that \<^verbatim>\<open>filepath.Clean\<close> keeps as it is: not empty, not a dot or dot-dot
  element, and without a separator.
\<close>

definition plain_elem :: "string \<Rightarrow> bool" where
  "plain_elem e \<longleftrightarrow> e \<noteq> [] \<and> e \<noteq> ''.'' \<and> e \<noteq> ''..'' \<and> CHR ''/'' \<notin> set e"

text \<open>The persistent missing set as a document: an absent key reads as the empty object.\<close>

definition missing_doc :: "refStore \<Rightarrow> json_doc" where
  "missing_doc s = (case missing_refs s of None \<Rightarrow> JSONObject [] | Some doc \<Rightarrow> doc)"

section \<open>Concrete inputs\<close>

text \<open>A store that has just been started on an empty root, and the five bytes of
  \<^verbatim>\<open>hello\<close> with their two digests.\<close>

definition empty_store :: refStore where
  "empty_store =
     \<lparr>rootPath = ''/data/redwood'', root_files = Map.empty, blob_files = [],
      metadata = Map.empty, missing_refs = None\<rparr>"

definition hello :: bytes where
  "hello = [0x68, 0x65, 0x6C, 0x6C, 0x6F]"

definition hello_sha1 :: bytes where
  "hello_sha1 =
     [0xAA, 0xF4, 0xC6, 0x1D, 0xDC, 0xC5, 0xE8, 0xA2, 0xDA, 0xBE, 0xDE, 0x0F, 0x3B, 0x48, 0x2C,
      0xD9, 0xAE, 0xA9, 0x43, 0x4D]"

definition hello_sha3 :: Hash where
  "hello_sha3 =
     [0x1C, 0x8A, 0xFF, 0x95, 0x06, 0x85, 0xC2, 0xED, 0x4B, 0xC3, 0x17, 0x4F, 0x34, 0x72, 0x28,
      0x7B, 0x56, 0xD9, 0x51, 0x7B, 0x9C, 0x94, 0x81, 0x27, 0x31, 0x9A, 0x09, 0xA7, 0xA3, 0x6D,
      0xEA, 0xC8]"

section \<open>The digests of the bytes of \<^verbatim>\<open>hello\<close>\<close>

text \<open>
  Both digests of the five bytes \<^verbatim>\<open>hello\<close> are computed by rewriting, one lemma for
  each stage; the intermediate states are written out.
\<close>

lemma replicate_numeral:
  "replicate (numeral k) x = x # replicate (pred_numeral k) x"
  by (simp add: numeral_eq_Suc)

lemma sha1_pad_hello:
  "sha1_pad [0x68, 0x65, 0x6C, 0x6C, 0x6F] =
     [0x68, 0x65, 0x6C, 0x6C, 0x6F, 0x80, 0x00, 0x00, 0x00, 0x00, 0x00, 0x00, 0x00, 0x00, 0x00, 0x00,
      0x00, 0x00, 0x00, 0x00, 0x00, 0x00, 0x00, 0x00, 0x00, 0x00, 0x00, 0x00, 0x00, 0x00, 0x00, 0x00,
      0x00, 0x00, 0x00, 0x00, 0x00, 0x00, 0x00, 0x00, 0x00, 0x00, 0x00, 0x00, 0x00, 0x00, 0x00, 0x00,
      0x00, 0x00, 0x00, 0x00, 0x00, 0x00, 0x00, 0x00, 0x00, 0x00, 0x00, 0x00, 0x00, 0x00, 0x00, 0x28]"
  by (simp add: sha1_pad_def be_bytes64_def replicate_numeral)

lemma sha1_schedule_hello:
  "sha1_schedule
     [0x68, 0x65, 0x6C, 0x6C, 0x6F, 0x80, 0x00, 0x00, 0x00, 0x00, 0x00, 0x00, 0x00, 0x00, 0x00, 0x00,
      0x00, 0x00, 0x00, 0x00, 0x00, 0x00, 0x00, 0x00, 0x00, 0x00, 0x00, 0x00, 0x00, 0x00, 0x00, 0x00,
      0x00, 0x00, 0x00, 0x00, 0x00, 0x00, 0x00, 0x00, 0x00, 0x00, 0x00, 0x00, 0x00, 0x00, 0x00, 0x00,
      0x00, 0x00, 0x00, 0x00, 0x00, 0x00, 0x00, 0x00, 0x00, 0x00, 0x00, 0x00, 0x00, 0x00, 0x00, 0x28] =
     [0x68656C6C, 0x6F800000, 0x00000000, 0x00000000, 0x00000000, 0x00000000,
      0x00000000, 0x00000000, 0x00000000, 0x00000000, 0x00000000, 0x00000000,
      0x00000000, 0x00000000, 0x00000000, 0x00000028, 0xD0CAD8D8, 0xDF000000,
      0x00000050, 0xA195B1B1, 0xBE000001, 0x000000A0, 0x432B6363, 0x7C000053,
      0xA195B0F1, 0x3856C6C7, 0xF8000006, 0x00000280, 0x0CAD8D8D, 0xF000011D,
      0x27C37277, 0x5F5B1BED, 0x02BED2C9, 0xC2000A02, 0x32B63774, 0x4656C2B1,
      0x670DC9DA, 0x7D6C6D35, 0x0656C6A9, 0xF8002946, 0x4C8E1E16, 0xF80011D9,
      0x7C372772, 0xF5B1BE75, 0x68C64FF3, 0x5C00A16F, 0xAD35B0C5, 0x1B3AEEB4,
      0x410CB588, 0xA2C6D35F, 0x656C6ED0, 0x1F0F48F3, 0x56B727BF, 0x78011799,
      0xF1C44113, 0x9B1BE328, 0x136936EA, 0xBD667BC0, 0xD50DCAF3, 0x4BAEC207,
      0x5C454692, 0xD46D2563, 0xACA70CB2, 0xFD4530A2, 0xC6C991A3, 0x5811D9BD,
      0x3727667C, 0xD4D2199D, 0x464FF307, 0x00A16F5C, 0x35B0C5AD, 0x3AEEB69B,
      0x001805CC, 0x36D34BAF, 0x0902B90D, 0x9613F66A, 0x00FDE511, 0x41178720,
      0x939B5DAD, 0x3E8F752B]"
  by (simp add: sha1_schedule_def sha1_expand_step_def chunks.simps be_word32_def rotl32_def
      upt_rec)

lemma sha1_rounds_hello:
  "fold (sha1_round
     [0x68656C6C, 0x6F800000, 0x00000000, 0x00000000, 0x00000000, 0x00000000,
      0x00000000, 0x00000000, 0x00000000, 0x00000000, 0x00000000, 0x00000000,
      0x00000000, 0x00000000, 0x00000000, 0x00000028, 0xD0CAD8D8, 0xDF000000,
      0x00000050, 0xA195B1B1, 0xBE000001, 0x000000A0, 0x432B6363, 0x7C000053,
      0xA195B0F1, 0x3856C6C7, 0xF8000006, 0x00000280, 0x0CAD8D8D, 0xF000011D,
      0x27C37277, 0x5F5B1BED, 0x02BED2C9, 0xC2000A02, 0x32B63774, 0x4656C2B1,
      0x670DC9DA, 0x7D6C6D35, 0x0656C6A9, 0xF8002946, 0x4C8E1E16, 0xF80011D9,
      0x7C372772, 0xF5B1BE75, 0x68C64FF3, 0x5C00A16F, 0xAD35B0C5, 0x1B3AEEB4,
      0x410CB588, 0xA2C6D35F, 0x656C6ED0, 0x1F0F48F3, 0x56B727BF, 0x78011799,
      0xF1C44113, 0x9B1BE328, 0x136936EA, 0xBD667BC0, 0xD50DCAF3, 0x4BAEC207,
      0x5C454692, 0xD46D2563, 0xACA70CB2, 0xFD4530A2, 0xC6C991A3, 0x5811D9BD,
      0x3727667C, 0xD4D2199D, 0x464FF307, 0x00A16F5C, 0x35B0C5AD, 0x3AEEB69B,
      0x001805CC, 0x36D34BAF, 0x0902B90D, 0x9613F66A, 0x00FDE511, 0x41178720,
      0x939B5DAD, 0x3E8F752B])
     [0..<80] [0x67452301, 0xEFCDAB89, 0x98BADCFE, 0x10325476, 0xC3D2E1F0] =
     [0x43AFA31C, 0xECF83D19, 0x42040111, 0x2B15D863, 0xEAD6615D]"
  by (simp add: sha1_f_def sha1_k_def rotl32_def upt_rec)

lemma sha1_hello:
  "sha1 hello = hello_sha1"
  unfolding hello_def hello_sha1_def
  by (simp add: sha1_def sha1_pad_hello chunks.simps sha1_block_def sha1_init_def
      sha1_schedule_hello sha1_rounds_hello be_bytes32_def)

lemma keccak_pad_hello:
  "keccak_pad [0x68, 0x65, 0x6C, 0x6C, 0x6F] =
     [0x68, 0x65, 0x6C, 0x6C, 0x6F, 0x01, 0x00, 0x00, 0x00, 0x00, 0x00, 0x00, 0x00, 0x00, 0x00, 0x00,
      0x00, 0x00, 0x00, 0x00, 0x00, 0x00, 0x00, 0x00, 0x00, 0x00, 0x00, 0x00, 0x00, 0x00, 0x00, 0x00,
      0x00, 0x00, 0x00, 0x00, 0x00, 0x00, 0x00, 0x00, 0x00, 0x00, 0x00, 0x00, 0x00, 0x00, 0x00, 0x00,
      0x00, 0x00, 0x00, 0x00, 0x00, 0x00, 0x00, 0x00, 0x00, 0x00, 0x00, 0x00, 0x00, 0x00, 0x00, 0x00,
      0x00, 0x00, 0x00, 0x00, 0x00, 0x00, 0x00, 0x00, 0x00, 0x00, 0x00, 0x00, 0x00, 0x00, 0x00, 0x00,
      0x00, 0x00, 0x00, 0x00, 0x00, 0x00, 0x00, 0x00, 0x00, 0x00, 0x00, 0x00, 0x00, 0x00, 0x00, 0x00,
      0x00, 0x00, 0x00, 0x00, 0x00, 0x00, 0x00, 0x00, 0x00, 0x00, 0x00, 0x00, 0x00, 0x00, 0x00, 0x00,
      0x00, 0x00, 0x00, 0x00, 0x00, 0x00, 0x00, 0x00, 0x00, 0x00, 0x00, 0x00, 0x00, 0x00, 0x00, 0x00,
      0x00, 0x00, 0x00, 0x00, 0x00, 0x00, 0x00, 0x80]"
  by (simp add: keccak_pad_def replicate_numeral)

lemma keccak_round_hello_0:
  "keccak_round 0x0000000000000001
     [0x0000016F6C6C6568, 0x0000000000000000, 0x0000000000000000,
      0x0000000000000000, 0x0000000000000000, 0x0000000000000000,
      0x0000000000000000, 0x0000000000000000, 0x0000000000000000,
      0x0000000000000000, 0x0000000000000000, 0x0000000000000000,
      0x0000000000000000, 0x0000000000000000, 0x0000000000000000,
      0x0000000000000000, 0x8000000000000000, 0x0000000000000000,
      0x0000000000000000, 0x0000000000000000, 0x0000000000000000,
      0x0000000000000000, 0x0000000000000000, 0x0000000000000000,
      0x0000000000000000] =
     [0x0000056F6C6C6568, 0xC65680000016F6C6, 0x00B7B23632B40000,
      0x000001494C486569, 0xC6E1363632A69286, 0x0000000000000008,
      0xA1409D8CAD2DED85, 0x1000000000000008, 0x8CAD1000002DED8D,
      0x3DED8D8CAD000000, 0x000002DED8D8CAD0, 0x0002DED8D8CAD020,
      0x0000000000040000, 0x0002DC0600121AD0, 0x0000000000040020,
      0xF6C37BF73195A016, 0x0000001000004000, 0x0005BDB1B195A000,
      0xF6C6C65680004016, 0x0000000000000000, 0x4C65680000016F6C,
      0x0000020000000000, 0x6C656DBDB1B0FACC, 0x2000020000000000,
      0x000005BDB1B195A0]"
  by (simp add: keccak_round_def iota_def chi_def rho_pi_def pi_src_def theta_def
      theta_apply_def theta_D_def theta_C_def rotl64_def keccak_rot_def upt_rec)

lemma keccak_round_hello_1:
  "keccak_round 0x0000000000008082
     [0x0000056F6C6C6568, 0xC65680000016F6C6, 0x00B7B23632B40000,
      0x000001494C486569, 0xC6E1363632A69286, 0x0000000000000008,
      0xA1409D8CAD2DED85, 0x1000000000000008, 0x8CAD1000002DED8D,
      0x3DED8D8CAD000000, 0x000002DED8D8CAD0, 0x0002DED8D8CAD020,
      0x0000000000040000, 0x0002DC0600121AD0, 0x0000000000040020,
      0xF6C37BF73195A016, 0x0000001000004000, 0x0005BDB1B195A000,
      0xF6C6C65680004016, 0x0000000000000000, 0x4C65680000016F6C,
      0x0000020000000000, 0x6C656DBDB1B0FACC, 0x2000020000000000,
      0x000005BDB1B195A0] =
     [0xB554397A9B9CEF02, 0x7F88BE440DBFE4C1, 0x907B371F169BF5A8,
      0x3878F66293F7B53B, 0x0B821BE5A5C64B9B, 0xFA06F392C8AA31F6,
      0x9306BB102971288A, 0x8C7DC510A8D75A3D, 0xD2A3C8631A2C7D43,
      0x767477B878C4D6B5, 0x0EF5A261F02C570D, 0xF09449B94389EDDB,
      0x36C3419DFBB5D984, 0x2DA134E6371BB527, 0xA33F4A5FFD326DF1,
      0x379E2C698F4A21BD, 0xC8411A8795D1A81D, 0x60B368FB30799B18,
      0xA1672E444C93E948, 0x81ABDE9E647F7B14, 0xED549240F76A0BEA,
      0x6061158756397ED4, 0x1D898BDF92B1CE62, 0x3BBFBD97BB4E7B28,
      0x0E20694C883E111D]"
  by (simp add: keccak_round_def iota_def chi_def rho_pi_def pi_src_def theta_def
      theta_apply_def theta_D_def theta_C_def rotl64_def keccak_rot_def upt_rec)

lemma keccak_round_hello_2:
  "keccak_round 0x800000000000808A
     [0xB554397A9B9CEF02, 0x7F88BE440DBFE4C1, 0x907B371F169BF5A8,
      0x3878F66293F7B53B, 0x0B821BE5A5C64B9B, 0xFA06F392C8AA31F6,
      0x9306BB102971288A, 0x8C7DC510A8D75A3D, 0xD2A3C8631A2C7D43,
      0x767477B878C4D6B5, 0x0EF5A261F02C570D, 0xF09449B94389EDDB,
      0x36C3419DFBB5D984, 0x2DA134E6371BB527, 0xA33F4A5FFD326DF1,
      0x379E2C698F4A21BD, 0xC8411A8795D1A81D, 0x60B368FB30799B18,
      0xA1672E444C93E948, 0x81ABDE9E647F7B14, 0xED549240F76A0BEA,
      0x6061158756397ED4, 0x1D898BDF92B1CE62, 0x3BBFBD97BB4E7B28,
      0x0E20694C883E111D] =
     [0x0F623EF5BFB21FC4, 0x3CBD4A4B4CA7D240, 0x5A8D0C0DEF959E3D,
      0x22464A1FE14A818A, 0x47D35DDDEE1299D6, 0xDCC7DB2FCCD02356,
      0x3D78664FA8D990C4, 0x3C4FE312B815B7A9, 0x752CBFAEC5F95006,
      0x8246FF8B75A56C68, 0xB427011270EF337D, 0xD0C74DFF869E86C0,
      0xE3949347299DB78F, 0x54F8F9991613749A, 0x51A5ED747E2F950A,
      0x866CF75C8F275F7C, 0xD8425B18AA136972, 0xFFB915D344E28719,
      0x0CAE3167921CF6F6, 0xB7CECDEEB0CC9CED, 0xCAA11086890EF723,
      0x029ADCC4EA723F21, 0x3E22C0C42EBD3FA0, 0x6CABA09BD0755516,
      0x53DB65703FB666A5]"
  by (simp add: keccak_round_def iota_def chi_def rho_pi_def pi_src_def theta_def
      theta_apply_def theta_D_def theta_C_def rotl64_def keccak_rot_def upt_rec)

lemma keccak_round_hello_3:
  "keccak_round 0x8000000080008000
     [0x0F623EF5BFB21FC4, 0x3CBD4A4B4CA7D240, 0x5A8D0C0DEF959E3D,
      0x22464A1FE14A818A, 0x47D35DDDEE1299D6, 0xDCC7DB2FCCD02356,
      0x3D78664FA8D990C4, 0x3C4FE312B815B7A9, 0x752CBFAEC5F95006,
      0x8246FF8B75A56C68, 0xB427011270EF337D, 0xD0C74DFF869E86C0,
      0xE3949347299DB78F, 0x54F8F9991613749A, 0x51A5ED747E2F950A,
      0x866CF75C8F275F7C, 0xD8425B18AA136972, 0xFFB915D344E28719,
      0x0CAE3167921CF6F6, 0xB7CECDEEB0CC9CED, 0xCAA11086890EF723,
      0x029ADCC4EA723F21, 0x3E22C0C42EBD3FA0, 0x6CABA09BD0755516,
      0x53DB65703FB666A5] =
     [0x88B2B50618516616, 0x1DAB5BFE76FD3855, 0x64E3A17A003E9FE0,
      0xAA58777EA5862508, 0x28A119F5C8E0C1FD, 0x1A05CC2DA8780BCA,
      0x27F06A025EE9E476, 0x93B377ABC4D12977, 0xF074D756C11A9226,
      0x3BEAC1FB2A36A03F, 0x6DF23F0FC36E986A, 0xACDFB15E8D9F163C,
      0x752FA9FBA2E2797B, 0xD7563AC98CDD3AAB, 0xEFDF1BED2746B050,
      0x20CC90264B160631, 0x1317D91BB13E05F8, 0x44B1E2A8D9B03388,
      0x440AD1F88FF71D97, 0x5FD9658F1878FB88, 0xF4183E729918C073,
      0xA669C4AD65022260, 0xD7D66E1252794014, 0xA9475D837B99DD60,
      0x8B5AF42F59C96856]"
  by (simp add: keccak_round_def iota_def chi_def rho_pi_def pi_src_def theta_def
      theta_apply_def theta_D_def theta_C_def rotl64_def keccak_rot_def upt_rec)

lemma keccak_round_hello_4:
  "keccak_round 0x000000000000808B
     [0x88B2B50618516616, 0x1DAB5BFE76FD3855, 0x64E3A17A003E9FE0,
      0xAA58777EA5862508, 0x28A119F5C8E0C1FD, 0x1A05CC2DA8780BCA,
      0x27F06A025EE9E476, 0x93B377ABC4D12977, 0xF074D756C11A9226,
      0x3BEAC1FB2A36A03F, 0x6DF23F0FC36E986A, 0xACDFB15E8D9F163C,
      0x752FA9FBA2E2797B, 0xD7563AC98CDD3AAB, 0xEFDF1BED2746B050,
      0x20CC90264B160631, 0x1317D91BB13E05F8, 0x44B1E2A8D9B03388,
      0x440AD1F88FF71D97, 0x5FD9658F1878FB88, 0xF4183E729918C073,
      0xA669C4AD65022260, 0xD7D66E1252794014, 0xA9475D837B99DD60,
      0x8B5AF42F59C96856] =
     [0xA750197DA795B2C7, 0x1F7B28E5217512C2, 0x5860C56CC8DDD75B,
      0xBEAD9204C0EC77D4, 0x9433235D10F32F11, 0x9480B2DB0FB6E206,
      0xB15A48EA70999FDF, 0x3682E3A520320FC0, 0xD9DD834EF64DB97F,
      0x8E8F13E6E3320B0E, 0x9C14BD5A9952A641, 0x48D0A2A10EC6973C,
      0xAC96BF1DA72AAD5A, 0xEDB3F440DDE9926A, 0x5986BBF822C36EF5,
      0x7822F80319F90C6D, 0xF26D68A7DC7B156E, 0xFE500EDF69FEAEF0,
      0xDD56C67D8A14738A, 0x0BA1718ED29C5FE5, 0x7958807AD7197B08,
      0x676A23D238825E15, 0xF3CC6C0C47E7EEBE, 0xF1E62698DD84C078,
      0xB9270EF05F8BA187]"
  by (simp add: keccak_round_def iota_def chi_def rho_pi_def pi_src_def theta_def
      theta_apply_def theta_D_def theta_C_def rotl64_def keccak_rot_def upt_rec)

lemma keccak_round_hello_5:
  "keccak_round 0x0000000080000001
     [0xA750197DA795B2C7, 0x1F7B28E5217512C2, 0x5860C56CC8DDD75B,
      0xBEAD9204C0EC77D4, 0x9433235D10F32F11, 0x9480B2DB0FB6E206,
      0xB15A48EA70999FDF, 0x3682E3A520320FC0, 0xD9DD834EF64DB97F,
      0x8E8F13E6E3320B0E, 0x9C14BD5A9952A641, 0x48D0A2A10EC6973C,
      0xAC96BF1DA72AAD5A, 0xEDB3F440DDE9926A, 0x5986BBF822C36EF5,
      0x7822F80319F90C6D, 0xF26D68A7DC7B156E, 0xFE500EDF69FEAEF0,
      0xDD56C67D8A14738A, 0x0BA1718ED29C5FE5, 0x7958807AD7197B08,
      0x676A23D238825E15, 0xF3CC6C0C47E7EEBE, 0xF1E62698DD84C078,
      0xB9270EF05F8BA187] =
     [0xF100DA6B2CCE6FDA, 0xA75A18629F10241B, 0x54963F8420A90B2A,
      0x200A84866EBE1C8B, 0x33D7071C425FC08A, 0xD39160B5292B4BF7,
      0xBDFA04FE3767440E, 0x7223D30497BDA3DC, 0xDFF2BA54F706DC0D,
      0x59B191CB46F4BC38, 0x46297559533BB0FC, 0xE0392A7892112772,
      0x6B4AADB579C2E5CB, 0xEE816AC56D9B5DA0, 0xBF53FA8930D1B327,
      0x7638EE5CDB9BEF39, 0x425A16AC2D15B512, 0x5C788AFA58F70AFA,
      0x4E6DD5C41A9F64E1, 0xE69A7695C100639E, 0x95DD114B468FD419,
      0xF0CE0644BB99CD36, 0xD4434BF154314FA9, 0x15FCB246E63E1664,
      0x38344B640BBEDADF]"
  by (simp add: keccak_round_def iota_def chi_def rho_pi_def pi_src_def theta_def
      theta_apply_def theta_D_def theta_C_def rotl64_def keccak_rot_def upt_rec)

lemma keccak_round_hello_6:
  "keccak_round 0x8000000080008081
     [0xF100DA6B2CCE6FDA, 0xA75A18629F10241B, 0x54963F8420A90B2A,
      0x200A84866EBE1C8B, 0x33D7071C425FC08A, 0xD39160B5292B4BF7,
      0xBDFA04FE3767440E, 0x7223D30497BDA3DC, 0xDFF2BA54F706DC0D,
      0x59B191CB46F4BC38, 0x46297559533BB0FC, 0xE0392A7892112772,
      0x6B4AADB579C2E5CB, 0xEE816AC56D9B5DA0, 0xBF53FA8930D1B327,
      0x7638EE5CDB9BEF39, 0x425A16AC2D15B512, 0x5C788AFA58F70AFA,
      0x4E6DD5C41A9F64E1, 0xE69A7695C100639E, 0x95DD114B468FD419,
      0xF0CE0644BB99CD36, 0xD4434BF154314FA9, 0x15FCB246E63E1664,
      0x38344B640BBEDADF] =
     [0xCA8D937917FA6F28, 0x4B32AB52E3D23656, 0x6A7E70BEE560D220,
      0xBC256225A5ABB37E, 0x13460D283AA6CF19, 0xBD102EDBFF738B3C,
      0x37F916B08301F635, 0xED734775986E14D6, 0x9547E755C6CC2655,
      0x83DE517AFDBB81F5, 0x571C566FE99D36FF, 0x7FA4A8848713EE4B,
      0x7B778151AC54C7C3, 0x8C2C705E9702D8AD, 0x9B570EFF652CF970,
      0x52A006A53DDC012E, 0xA2301ADC90195078, 0xB66B5B66ECE15D92,
      0xA1C6338A255BC8DE, 0x03D336C1A7DA76E3, 0xE053EC19A741AA08,
      0xF148C44EE9C78F34, 0x0321BBD900DC16D5, 0x15DCD2D355F7E679,
      0xF5ECDAE3C9698D7F]"
  by (simp add: keccak_round_def iota_def chi_def rho_pi_def pi_src_def theta_def
      theta_apply_def theta_D_def theta_C_def rotl64_def keccak_rot_def upt_rec)

lemma keccak_round_hello_7:
  "keccak_round 0x8000000000008009
     [0xCA8D937917FA6F28, 0x4B32AB52E3D23656, 0x6A7E70BEE560D220,
      0xBC256225A5ABB37E, 0x13460D283AA6CF19, 0xBD102EDBFF738B3C,
      0x37F916B08301F635, 0xED734775986E14D6, 0x9547E755C6CC2655,
      0x83DE517AFDBB81F5, 0x571C566FE99D36FF, 0x7FA4A8848713EE4B,
      0x7B778151AC54C7C3, 0x8C2C705E9702D8AD, 0x9B570EFF652CF970,
      0x52A006A53DDC012E, 0xA2301ADC90195078, 0xB66B5B66ECE15D92,
      0xA1C6338A255BC8DE, 0x03D336C1A7DA76E3, 0xE053EC19A741AA08,
      0xF148C44EE9C78F34, 0x0321BBD900DC16D5, 0x15DCD2D355F7E679,
      0xF5ECDAE3C9698D7F] =
     [0x9154921FA7470033, 0x71A1C47FAF189405, 0xE68AF0E2C14341CA,
      0x9252071035A6E303, 0x53BC9FCC9FC94613, 0xF0079E5819EBC589,
      0xFF44E205021348E7, 0x7E0A3350C916C1AC, 0x47A63044D6F9AEAA,
      0x60D3AB1956FA265A, 0x9E06CCC6015EB46E, 0xD0290E83F90AFD27,
      0xDCBBC8FDAE7D5CB7, 0xE120551605CF59FA, 0x74D44CF9EB82BE32,
      0xE45F4A6C493A30F3, 0xF8EA5F68A9A219D0, 0xDA97FDD018AC1DEA,
      0xB8765FB2A55C42A3, 0x122718FBED31DF34, 0xEE9440F81CB71940,
      0x9758C36EBBE2D5EA, 0x7B94C497738C3D8E, 0xC54F8C37A2E5B69A,
      0xD46A2ED20101CECD]"
  by (simp add: keccak_round_def iota_def chi_def rho_pi_def pi_src_def theta_def
      theta_apply_def theta_D_def theta_C_def rotl64_def keccak_rot_def upt_rec)

lemma keccak_round_hello_8:
  "keccak_round 0x000000000000008A
     [0x9154921FA7470033, 0x71A1C47FAF189405, 0xE68AF0E2C14341CA,
      0x9252071035A6E303, 0x53BC9FCC9FC94613, 0xF0079E5819EBC589,
      0xFF44E205021348E7, 0x7E0A3350C916C1AC, 0x47A63044D6F9AEAA,
      0x60D3AB1956FA265A, 0x9E06CCC6015EB46E, 0xD0290E83F90AFD27,
      0xDCBBC8FDAE7D5CB7, 0xE120551605CF59FA, 0x74D44CF9EB82BE32,
      0xE45F4A6C493A30F3, 0xF8EA5F68A9A219D0, 0xDA97FDD018AC1DEA,
      0xB8765FB2A55C42A3, 0x122718FBED31DF34, 0xEE9440F81CB71940,
      0x9758C36EBBE2D5EA, 0x7B94C497738C3D8E, 0xC54F8C37A2E5B69A,
      0xD46A2ED20101CECD] =
     [0x535FF614B5797C95, 0xDAACB40EA6C3832B, 0xFB4DE6E1756C60F3,
      0x462E9A24622ED41F, 0x0E4F853FA71A1E8E, 0x3673912327496A12,
      0xF846B2D7EBF4BB10, 0xC04B7BF67A374097, 0x934340E39F25B3B8,
      0x722200A8B647C23C, 0x9C9C54932AE8A212, 0xFEED1F9B23BB31F7,
      0x22ABE070847FCFBB, 0xF7AF93FB6C83D9B2, 0xBF6C72D475E33798,
      0x0552F09136BB405B, 0xBFCD5F0B38CB8A35, 0x34A18F05B5E2ED7B,
      0x10002ECA9B69BD19, 0x90AE946234B274F1, 0x73AC8B449160D9B1,
      0xDD58AD4B8B085D76, 0xA867EA4A04145B67, 0x214B564A399F2636,
      0x2E8985A00CB2F3DC]"
  by (simp add: keccak_round_def iota_def chi_def rho_pi_def pi_src_def theta_def
      theta_apply_def theta_D_def theta_C_def rotl64_def keccak_rot_def upt_rec)

lemma keccak_round_hello_9:
  "keccak_round 0x0000000000000088
     [0x535FF614B5797C95, 0xDAACB40EA6C3832B, 0xFB4DE6E1756C60F3,
      0x462E9A24622ED41F, 0x0E4F853FA71A1E8E, 0x3673912327496A12,
      0xF846B2D7EBF4BB10, 0xC04B7BF67A374097, 0x934340E39F25B3B8,
      0x722200A8B647C23C, 0x9C9C54932AE8A212, 0xFEED1F9B23BB31F7,
      0x22ABE070847FCFBB, 0xF7AF93FB6C83D9B2, 0xBF6C72D475E33798,
      0x0552F09136BB405B, 0xBFCD5F0B38CB8A35, 0x34A18F05B5E2ED7B,
      0x10002ECA9B69BD19, 0x90AE946234B274F1, 0x73AC8B449160D9B1,
      0xDD58AD4B8B085D76, 0xA867EA4A04145B67, 0x214B564A399F2636,
      0x2E8985A00CB2F3DC] =
     [0x13DCC6904018BCEF, 0x2E5F9FFB6C22CC14, 0x63E685C97A4259DE,
      0x2E435E67CAD541D7, 0x293D813F0FA108F7, 0x0E88055903D88CF4,
      0x1D6B34BB5F33B173, 0xE0DF68BA755B29E6, 0xEA99A65384E54E4D,
      0x975F5EE4CBF38AF9, 0x3F6B80DF06C83B2F, 0x6ADDC739613F3F06,
      0xE7DE9BB4DFB5D8AF, 0xAB5D3C625243059D, 0xAF95BE244390CEAE,
      0xCC475A0E48AEF4A2, 0x14AAB6ABEB4A586C, 0xADDE81A732861CCA,
      0x87BE9520A4C09690, 0xE9D6CD2247BA3BFB, 0x5DB357B7EBD67D26,
      0x0AF4B2C8678E6F18, 0x0FA57F7838D6C124, 0x2D928C0ED280DAA3,
      0x414775E382B70EA0]"
  by (simp add: keccak_round_def iota_def chi_def rho_pi_def pi_src_def theta_def
      theta_apply_def theta_D_def theta_C_def rotl64_def keccak_rot_def upt_rec)

lemma keccak_round_hello_10:
  "keccak_round 0x0000000080008009
     [0x13DCC6904018BCEF, 0x2E5F9FFB6C22CC14, 0x63E685C97A4259DE,
      0x2E435E67CAD541D7, 0x293D813F0FA108F7, 0x0E88055903D88CF4,
      0x1D6B34BB5F33B173, 0xE0DF68BA755B29E6, 0xEA99A65384E54E4D,
      0x975F5EE4CBF38AF9, 0x3F6B80DF06C83B2F, 0x6ADDC739613F3F06,
      0xE7DE9BB4DFB5D8AF, 0xAB5D3C625243059D, 0xAF95BE244390CEAE,
      0xCC475A0E48AEF4A2, 0x14AAB6ABEB4A586C, 0xADDE81A732861CCA,
      0x87BE9520A4C09690, 0xE9D6CD2247BA3BFB, 0x5DB357B7EBD67D26,
      0x0AF4B2C8678E6F18, 0x0FA57F7838D6C124, 0x2D928C0ED280DAA3,
      0x414775E382B70EA0] =
     [0x65D856DB5F4B0917, 0x9D02663B9726599F, 0xCC6E9040A273F6A3,
      0xC81BB2C0AFC47AD5, 0x1572093953DD281F, 0x3A5370D6DDBD2790,
      0xE83773548BC1E629, 0x53745E178CD407F3, 0x6716AD0E84A69758,
      0xDC4C37BA4409172A, 0x214BC1CA7D5F50AA, 0xEC6B90FEBDB480C8,
      0x1C6A1110B5BB18A8, 0xEA8685292C78EE49, 0x745447223B7D88EC,
      0xF70D96D541051658, 0xCDB1F256AA82E5A0, 0xBA7FDF78D559D710,
      0xE9E4844C668B349F, 0x25A9A3B4E28D237B, 0x2B810C481821A83A,
      0x2B27663E116DC9E9, 0x3157ED8E946715F2, 0x410EE3749285AB6F,
      0x9035D15ED3D45EA8]"
  by (simp add: keccak_round_def iota_def chi_def rho_pi_def pi_src_def theta_def
      theta_apply_def theta_D_def theta_C_def rotl64_def keccak_rot_def upt_rec)

lemma keccak_round_hello_11:
  "keccak_round 0x000000008000000A
     [0x65D856DB5F4B0917, 0x9D02663B9726599F, 0xCC6E9040A273F6A3,
      0xC81BB2C0AFC47AD5, 0x1572093953DD281F, 0x3A5370D6DDBD2790,
      0xE83773548BC1E629, 0x53745E178CD407F3, 0x6716AD0E84A69758,
      0xDC4C37BA4409172A, 0x214BC1CA7D5F50AA, 0xEC6B90FEBDB480C8,
      0x1C6A1110B5BB18A8, 0xEA8685292C78EE49, 0x745447223B7D88EC,
      0xF70D96D541051658, 0xCDB1F256AA82E5A0, 0xBA7FDF78D559D710,
      0xE9E4844C668B349F, 0x25A9A3B4E28D237B, 0x2B810C481821A83A,
      0x2B27663E116DC9E9, 0x3157ED8E946715F2, 0x410EE3749285AB6F,
      0x9035D15ED3D45EA8] =
     [0xE224EE21F54BC730, 0x0B656DBCDD72D196, 0x6112A7AD8F5A7639,
      0x6F428D11557D2B0F, 0x308C1AFA5894D6F3, 0xC48037C7BBB250BA,
      0x431F8401B8174A5A, 0x21EFCB8AABAFE6A2, 0x0A1B13ED3A8D4703,
      0x9B8400D90D1B4C94, 0x5FEDE2A7847BDB48, 0xDFC99C001052BB7D,
      0x9EDB76039EA647EC, 0x1C9FDE5C88BB5CCC, 0x13C4D6FD017B53A9,
      0x97ED911481EE1172, 0x5158BF0ED970847F, 0x399BB4A5F50A8D7E,
      0x84B91543DAA317D8, 0x214894500162C099, 0xCA197C4555B9B33D,
      0x298B092B15EE6A05, 0xDD4123F2DE21024A, 0x03E42681465459E6,
      0x464D01360E937ECA]"
  by (simp add: keccak_round_def iota_def chi_def rho_pi_def pi_src_def theta_def
      theta_apply_def theta_D_def theta_C_def rotl64_def keccak_rot_def upt_rec)

lemma keccak_round_hello_12:
  "keccak_round 0x000000008000808B
     [0xE224EE21F54BC730, 0x0B656DBCDD72D196, 0x6112A7AD8F5A7639,
      0x6F428D11557D2B0F, 0x308C1AFA5894D6F3, 0xC48037C7BBB250BA,
      0x431F8401B8174A5A, 0x21EFCB8AABAFE6A2, 0x0A1B13ED3A8D4703,
      0x9B8400D90D1B4C94, 0x5FEDE2A7847BDB48, 0xDFC99C001052BB7D,
      0x9EDB76039EA647EC, 0x1C9FDE5C88BB5CCC, 0x13C4D6FD017B53A9,
      0x97ED911481EE1172, 0x5158BF0ED970847F, 0x399BB4A5F50A8D7E,
      0x84B91543DAA317D8, 0x214894500162C099, 0xCA197C4555B9B33D,
      0x298B092B15EE6A05, 0xDD4123F2DE21024A, 0x03E42681465459E6,
      0x464D01360E937ECA] =
     [0x798EF4E8170D3B31, 0x615C3B35A08F6827, 0xAC26D46549D17A89,
      0xE83F9ABCDC143BF5, 0x77DC132417C9FC2A, 0x2129B8F67ECBC323,
      0xF1F2B0CC7914F2E5, 0xF78981A131698817, 0x9D4E9901A2DFF5BA,
      0x4176E0DD531E0263, 0xA54740D1E2AD9DFA, 0xEE7BB5B94BF5791A,
      0xBC6F766F69AFE380, 0x9C091245F7436EAE, 0xC109429579CF4C42,
      0xC1F44F193B2A2C3F, 0xF6F7AA4058AE912D, 0x2341DEA1DFD4F832,
      0x888CCC4DE33E55E7, 0xA08D2A1CC2E5B62E, 0x5EE924FC7062D140,
      0x7C416BBB3F95DFA8, 0x3471208237241F8B, 0x6D36D1A19ADD3A11,
      0xC2398D722020FE81]"
  by (simp add: keccak_round_def iota_def chi_def rho_pi_def pi_src_def theta_def
      theta_apply_def theta_D_def theta_C_def rotl64_def keccak_rot_def upt_rec)

lemma keccak_round_hello_13:
  "keccak_round 0x800000000000008B
     [0x798EF4E8170D3B31, 0x615C3B35A08F6827, 0xAC26D46549D17A89,
      0xE83F9ABCDC143BF5, 0x77DC132417C9FC2A, 0x2129B8F67ECBC323,
      0xF1F2B0CC7914F2E5, 0xF78981A131698817, 0x9D4E9901A2DFF5BA,
      0x4176E0DD531E0263, 0xA54740D1E2AD9DFA, 0xEE7BB5B94BF5791A,
      0xBC6F766F69AFE380, 0x9C091245F7436EAE, 0xC109429579CF4C42,
      0xC1F44F193B2A2C3F, 0xF6F7AA4058AE912D, 0x2341DEA1DFD4F832,
      0x888CCC4DE33E55E7, 0xA08D2A1CC2E5B62E, 0x5EE924FC7062D140,
      0x7C416BBB3F95DFA8, 0x3471208237241F8B, 0x6D36D1A19ADD3A11,
      0xC2398D722020FE81] =
     [0xE2DA151D227B10E5, 0x1863F36C67EF74A9, 0x2D4FCA8D448BEB61,
      0xBC06A5D6E37BD369, 0xDBED1621C4AA6641, 0xDD99CF81897F7DBF,
      0x31C091B685AE84A2, 0xC79D1D64BEC96FB9, 0x5C1AADBCDDE57F48,
      0x3B70E8CC40D445DF, 0xC4E3FC0FA6C71D3E, 0xBF11CDE973AEC92E,
      0x93673E9B84B92741, 0x756897BEEBCA2471, 0x2D3D1491DD544CE7,
      0x2F1F2030BDD5270A, 0xBBCFD7CECE15FE76, 0x7E8001E06C6F099D,
      0x1C91E53BF483C1D1, 0x6F77FBE56EDC990D, 0x41A8797DCF94F87A,
      0x2223884C077ED1E3, 0xB5BFA38428624BC7, 0xB91841858F5C8A20,
      0xD7755E003184A842]"
  by (simp add: keccak_round_def iota_def chi_def rho_pi_def pi_src_def theta_def
      theta_apply_def theta_D_def theta_C_def rotl64_def keccak_rot_def upt_rec)

lemma keccak_round_hello_14:
  "keccak_round 0x8000000000008089
     [0xE2DA151D227B10E5, 0x1863F36C67EF74A9, 0x2D4FCA8D448BEB61,
      0xBC06A5D6E37BD369, 0xDBED1621C4AA6641, 0xDD99CF81897F7DBF,
      0x31C091B685AE84A2, 0xC79D1D64BEC96FB9, 0x5C1AADBCDDE57F48,
      0x3B70E8CC40D445DF, 0xC4E3FC0FA6C71D3E, 0xBF11CDE973AEC92E,
      0x93673E9B84B92741, 0x756897BEEBCA2471, 0x2D3D1491DD544CE7,
      0x2F1F2030BDD5270A, 0xBBCFD7CECE15FE76, 0x7E8001E06C6F099D,
      0x1C91E53BF483C1D1, 0x6F77FBE56EDC990D, 0x41A8797DCF94F87A,
      0x2223884C077ED1E3, 0xB5BFA38428624BC7, 0xB91841858F5C8A20,
      0xD7755E003184A842] =
     [0x48F138049D42573B, 0x3CCB5C0DB58C4B1A, 0xD1B017EE1DF5EC00,
      0x2AB871D79FC9EB74, 0xB0B79C1AAFF6BB25, 0x13141AEC66D5E65A,
      0xC1BD3DF4877692B8, 0xD6C1D3248DD35005, 0x56483139ED871C96,
      0x7BC261BD849C2366, 0xE15905EDF3407C70, 0xCE62C32294BB139A,
      0x6FBB707390E9660D, 0x24FF273B81049555, 0x503F23B8280F2855,
      0xB42926BA4899168B, 0xE312FE8320471FA1, 0xC4B0AFE6A71EB3F9,
      0x73CB15B402373812, 0xCFB01E9481DF4FF7, 0xDC92C6B9634E1EE2,
      0x6102E23CCC606F80, 0x6D69B1EBC32A4204, 0xCED2E98A411D9C31,
      0x6B81AEFCB87714D2]"
  by (simp add: keccak_round_def iota_def chi_def rho_pi_def pi_src_def theta_def
      theta_apply_def theta_D_def theta_C_def rotl64_def keccak_rot_def upt_rec)

lemma keccak_round_hello_15:
  "keccak_round 0x8000000000008003
     [0x48F138049D42573B, 0x3CCB5C0DB58C4B1A, 0xD1B017EE1DF5EC00,
      0x2AB871D79FC9EB74, 0xB0B79C1AAFF6BB25, 0x13141AEC66D5E65A,
      0xC1BD3DF4877692B8, 0xD6C1D3248DD35005, 0x56483139ED871C96,
      0x7BC261BD849C2366, 0xE15905EDF3407C70, 0xCE62C32294BB139A,
      0x6FBB707390E9660D, 0x24FF273B81049555, 0x503F23B8280F2855,
      0xB42926BA4899168B, 0xE312FE8320471FA1, 0xC4B0AFE6A71EB3F9,
      0x73CB15B402373812, 0xCFB01E9481DF4FF7, 0xDC92C6B9634E1EE2,
      0x6102E23CCC606F80, 0x6D69B1EBC32A4204, 0xCED2E98A411D9C31,
      0x6B81AEFCB87714D2] =
     [0xE70A6A1F3644493A, 0x0D40BB41FAC826D4, 0x708D79A191CA4FF0,
      0x6CC342C2917B85D5, 0x2EC642855E94EC66, 0x78B2016E7351C278,
      0x55016BB2F5AB0DE5, 0x6310BB9BFA271D25, 0x6984C6022DD9E90E,
      0x87CD299B9D138321, 0x58F7D4D6BED38392, 0x521D96CFEF184F67,
      0x9330CCD98CBE31A3, 0x20CFFBB30676229E, 0x721B141346824BEA,
      0xEACC9FE31789560E, 0x1F7D53A026005CB8, 0x291400FA26140658,
      0xDBA64EFCC5E9DFC2, 0xA762379B3030FC51, 0x1FA46F9F4FD5BAC3,
      0x82F5D171959E73F0, 0xF3BAD8009B08DBEF, 0x19353145F3EC094D,
      0x44D951682A71B57C]"
  by (simp add: keccak_round_def iota_def chi_def rho_pi_def pi_src_def theta_def
      theta_apply_def theta_D_def theta_C_def rotl64_def keccak_rot_def upt_rec)

lemma keccak_round_hello_16:
  "keccak_round 0x8000000000008002
     [0xE70A6A1F3644493A, 0x0D40BB41FAC826D4, 0x708D79A191CA4FF0,
      0x6CC342C2917B85D5, 0x2EC642855E94EC66, 0x78B2016E7351C278,
      0x55016BB2F5AB0DE5, 0x6310BB9BFA271D25, 0x6984C6022DD9E90E,
      0x87CD299B9D138321, 0x58F7D4D6BED38392, 0x521D96CFEF184F67,
      0x9330CCD98CBE31A3, 0x20CFFBB30676229E, 0x721B141346824BEA,
      0xEACC9FE31789560E, 0x1F7D53A026005CB8, 0x291400FA26140658,
      0xDBA64EFCC5E9DFC2, 0xA762379B3030FC51, 0x1FA46F9F4FD5BAC3,
      0x82F5D171959E73F0, 0xF3BAD8009B08DBEF, 0x19353145F3EC094D,
      0x44D951682A71B57C] =
     [0x7210B87F8E823290, 0xC8438CB358B7AE6A, 0xD2D81E76A94C2FB5,
      0xA31CA7CD46F69C71, 0x3AC27D6569663DCB, 0x7ED1CE814692EA02,
      0xEE61BF56B9106F8B, 0x7AE127103ACB1176, 0xD2B43F2BF2590C72,
      0x956F22D32329D5A5, 0x1480F3537D9D6AA7, 0xADB73C9D58F16A8E,
      0x66807B8ABF4736A7, 0x37A8C6EB0EAFFD20, 0x56F2D5C105B8A393,
      0x84AF8644B13E7DBF, 0xBFF2B85FF3290C8F, 0x79E6DB34F6CDE054,
      0x2248B3092A012CF8, 0xB56278C6EB962B6C, 0x5A576A5E72A23D5E,
      0x6BF30A12EB3E875E, 0xA3090578A52596E6, 0xC75042EFE89F8A1C,
      0x36F4CAE38B6B2BBC]"
  by (simp add: keccak_round_def iota_def chi_def rho_pi_def pi_src_def theta_def
      theta_apply_def theta_D_def theta_C_def rotl64_def keccak_rot_def upt_rec)

lemma keccak_round_hello_17:
  "keccak_round 0x8000000000000080
     [0x7210B87F8E823290, 0xC8438CB358B7AE6A, 0xD2D81E76A94C2FB5,
      0xA31CA7CD46F69C71, 0x3AC27D6569663DCB, 0x7ED1CE814692EA02,
      0xEE61BF56B9106F8B, 0x7AE127103ACB1176, 0xD2B43F2BF2590C72,
      0x956F22D32329D5A5, 0x1480F3537D9D6AA7, 0xADB73C9D58F16A8E,
      0x66807B8ABF4736A7, 0x37A8C6EB0EAFFD20, 0x56F2D5C105B8A393,
      0x84AF8644B13E7DBF, 0xBFF2B85FF3290C8F, 0x79E6DB34F6CDE054,
      0x2248B3092A012CF8, 0xB56278C6EB962B6C, 0x5A576A5E72A23D5E,
      0x6BF30A12EB3E875E, 0xA3090578A52596E6, 0xC75042EFE89F8A1C,
      0x36F4CAE38B6B2BBC] =
     [0xFFF079BEC30B7429, 0x37AE7407DCEA2397, 0xD01433BC2DAFC95D,
      0xF3C11FBAEC92494B, 0xAD9687F49D848533, 0x9C78255FD42D831E,
      0xE5111963E1AFB81C, 0x7C049F93A20127A4, 0x0056C9305D118FE9,
      0x9656C4F35639147B, 0x42E1BAA8F1E90A21, 0xD1313D8E8FE89352,
      0x7FC71AAB8D96A411, 0x4427C37E0AC402BB, 0x308C38FAD03EEF04,
      0x0BFF72DD68225003, 0xA1E455239938EBA3, 0x8DB5AFE481DEDA4C,
      0x9B239B49AB96F02C, 0x2026918C78D128E2, 0xB21939B136582629,
      0x1330B86B0461EB43, 0x91D6DDA94C22A24A, 0x4CADC8A2ED88FD98,
      0x5A9DEBDD0C5FB048]"
  by (simp add: keccak_round_def iota_def chi_def rho_pi_def pi_src_def theta_def
      theta_apply_def theta_D_def theta_C_def rotl64_def keccak_rot_def upt_rec)

lemma keccak_round_hello_18:
  "keccak_round 0x000000000000800A
     [0xFFF079BEC30B7429, 0x37AE7407DCEA2397, 0xD01433BC2DAFC95D,
      0xF3C11FBAEC92494B, 0xAD9687F49D848533, 0x9C78255FD42D831E,
      0xE5111963E1AFB81C, 0x7C049F93A20127A4, 0x0056C9305D118FE9,
      0x9656C4F35639147B, 0x42E1BAA8F1E90A21, 0xD1313D8E8FE89352,
      0x7FC71AAB8D96A411, 0x4427C37E0AC402BB, 0x308C38FAD03EEF04,
      0x0BFF72DD68225003, 0xA1E455239938EBA3, 0x8DB5AFE481DEDA4C,
      0x9B239B49AB96F02C, 0x2026918C78D128E2, 0xB21939B136582629,
      0x1330B86B0461EB43, 0x91D6DDA94C22A24A, 0x4CADC8A2ED88FD98,
      0x5A9DEBDD0C5FB048] =
     [0x64220306FBEEA030, 0x376B972F935B1140, 0xAD1BB06D1378B202,
      0x5B074A6541DE6F3B, 0x3CAFBC325BF65EAE, 0xBAD6D9649DFA3D00,
      0xAADDF47CFCEC653D, 0x91080B00996BE587, 0x236896A042E3AF42,
      0x3C373D1EB128E558, 0xF6849501D5FF50E4, 0x49224B99108835B3,
      0xD65635F832D07B05, 0x671D79F456FA2CF1, 0x054F186B42F2A46E,
      0x10ED10D43BB7B8DC, 0xCF9F50F453A4CB7E, 0x6C24B7A0469ECE59,
      0xCFB1AA9CAC965694, 0xF662BF27F3FC1420, 0xAA44E8B8F82A0489,
      0xECD3020678A64FA9, 0x560A3B7453F24326, 0x2749ACB9081A6AB6,
      0x16C875738DF475B8]"
  by (simp add: keccak_round_def iota_def chi_def rho_pi_def pi_src_def theta_def
      theta_apply_def theta_D_def theta_C_def rotl64_def keccak_rot_def upt_rec)

lemma keccak_round_hello_19:
  "keccak_round 0x800000008000000A
     [0x64220306FBEEA030, 0x376B972F935B1140, 0xAD1BB06D1378B202,
      0x5B074A6541DE6F3B, 0x3CAFBC325BF65EAE, 0xBAD6D9649DFA3D00,
      0xAADDF47CFCEC653D, 0x91080B00996BE587, 0x236896A042E3AF42,
      0x3C373D1EB128E558, 0xF6849501D5FF50E4, 0x49224B99108835B3,
      0xD65635F832D07B05, 0x671D79F456FA2CF1, 0x054F186B42F2A46E,
      0x10ED10D43BB7B8DC, 0xCF9F50F453A4CB7E, 0x6C24B7A0469ECE59,
      0xCFB1AA9CAC965694, 0xF662BF27F3FC1420, 0xAA44E8B8F82A0489,
      0xECD3020678A64FA9, 0x560A3B7453F24326, 0x2749ACB9081A6AB6,
      0x16C875738DF475B8] =
     [0x6E65E215DDB1140A, 0x5A71998C016FAD7C, 0xF0F00F6048CB1D1F,
      0xDFB42E40696BA002, 0x7F0E7E9CF1CA7840, 0xD602002C441868F0,
      0x1C6A045F6F74E9EF, 0xA2917359FD852653, 0x8B230CB25C7F6511,
      0x4890E83D97AD84E2, 0x0E6A73E77E7F4F65, 0x2A1DC14BB164F2E6,
      0x00A22AF79E331BBA, 0x5BF26DE26B23CD7C, 0x4E6B9DDF42EAB2A7,
      0x47F2CFACBB7CA609, 0x7A443B2B50B76A6E, 0xBFC554EE0E1E70EF,
      0x479AFB7A757EB8FC, 0x7031C81BDF8ABD41, 0x0DB6A07DB13E8513,
      0x0E0CE08D2324CC7B, 0x81A9E3E2B57A21FD, 0x549CFF22602F6E0B,
      0x297A9AA90C3CF537]"
  by (simp add: keccak_round_def iota_def chi_def rho_pi_def pi_src_def theta_def
      theta_apply_def theta_D_def theta_C_def rotl64_def keccak_rot_def upt_rec)

lemma keccak_round_hello_20:
  "keccak_round 0x8000000080008081
     [0x6E65E215DDB1140A, 0x5A71998C016FAD7C, 0xF0F00F6048CB1D1F,
      0xDFB42E40696BA002, 0x7F0E7E9CF1CA7840, 0xD602002C441868F0,
      0x1C6A045F6F74E9EF, 0xA2917359FD852653, 0x8B230CB25C7F6511,
      0x4890E83D97AD84E2, 0x0E6A73E77E7F4F65, 0x2A1DC14BB164F2E6,
      0x00A22AF79E331BBA, 0x5BF26DE26B23CD7C, 0x4E6B9DDF42EAB2A7,
      0x47F2CFACBB7CA609, 0x7A443B2B50B76A6E, 0xBFC554EE0E1E70EF,
      0x479AFB7A757EB8FC, 0x7031C81BDF8ABD41, 0x0DB6A07DB13E8513,
      0x0E0CE08D2324CC7B, 0x81A9E3E2B57A21FD, 0x549CFF22602F6E0B,
      0x297A9AA90C3CF537] =
     [0x6A53E5A4E3103738, 0x01AA01AF6D985A38, 0x1EE9D40551FAFF62,
      0x50217298CE9F49AC, 0x8AD7A50F02247B66, 0xB1394D500FC77F71,
      0xF784377FF70EF707, 0x764936B715C80EA5, 0x32742A7A4ED035E2,
      0xF2A40C6E21F3F191, 0x8EED480D8D5EBE7D, 0x070DF9FEE9205060,
      0x6C2AAA50F66C663C, 0xE1B04C46D5505AB4, 0xDF20CA86EEA036D7,
      0x5B4F25FD94DD726E, 0x2FB4FE3084CC3A5C, 0x26AA40531906AC2D,
      0xF0A43A0D6A1E79EA, 0xADC98FAD1B1E4983, 0xA63A85E395BEE872,
      0x24D21C85D6B1320E, 0xD24C9A45559D80B9, 0x6F15770FA7823A28,
      0xA5AA0C13DA09FCD4]"
  by (simp add: keccak_round_def iota_def chi_def rho_pi_def pi_src_def theta_def
      theta_apply_def theta_D_def theta_C_def rotl64_def keccak_rot_def upt_rec)

lemma keccak_round_hello_21:
  "keccak_round 0x8000000000008080
     [0x6A53E5A4E3103738, 0x01AA01AF6D985A38, 0x1EE9D40551FAFF62,
      0x50217298CE9F49AC, 0x8AD7A50F02247B66, 0xB1394D500FC77F71,
      0xF784377FF70EF707, 0x764936B715C80EA5, 0x32742A7A4ED035E2,
      0xF2A40C6E21F3F191, 0x8EED480D8D5EBE7D, 0x070DF9FEE9205060,
      0x6C2AAA50F66C663C, 0xE1B04C46D5505AB4, 0xDF20CA86EEA036D7,
      0x5B4F25FD94DD726E, 0x2FB4FE3084CC3A5C, 0x26AA40531906AC2D,
      0xF0A43A0D6A1E79EA, 0xADC98FAD1B1E4983, 0xA63A85E395BEE872,
      0x24D21C85D6B1320E, 0xD24C9A45559D80B9, 0x6F15770FA7823A28,
      0xA5AA0C13DA09FCD4] =
     [0xB1E95ACFA46775C5, 0xFFEE89F2F16CD6AE, 0xBEC46DF3A9801D37,
      0x09909D7221CB517D, 0x7B08E1E7C16F78A4, 0x4811BF10DFA2CA8F,
      0x4467EEA52DAEF27C, 0xA8BF9B161DC2FC46, 0xC49CE2F374270330,
      0x827220D668A326B8, 0x93466AE5C961898E, 0x503B5C41402CF6ED,
      0x824683C24C946E3C, 0x785745018874EB7E, 0xD21B79242C778021,
      0xA2A99E317B3B27E3, 0x6609C5FA60BF41F7, 0x9AF2D9D1056BD8AC,
      0xFD5802F5FF924A4B, 0xA9C159EBC945C787, 0x3D80D1F59044E516,
      0x356C3CBCBD606A6A, 0x59003D654C49F51A, 0x112214913B3075B4,
      0xB3ABCA252150A92D]"
  by (simp add: keccak_round_def iota_def chi_def rho_pi_def pi_src_def theta_def
      theta_apply_def theta_D_def theta_C_def rotl64_def keccak_rot_def upt_rec)

lemma keccak_round_hello_22:
  "keccak_round 0x0000000080000001
     [0xB1E95ACFA46775C5, 0xFFEE89F2F16CD6AE, 0xBEC46DF3A9801D37,
      0x09909D7221CB517D, 0x7B08E1E7C16F78A4, 0x4811BF10DFA2CA8F,
      0x4467EEA52DAEF27C, 0xA8BF9B161DC2FC46, 0xC49CE2F374270330,
      0x827220D668A326B8, 0x93466AE5C961898E, 0x503B5C41402CF6ED,
      0x824683C24C946E3C, 0x785745018874EB7E, 0xD21B79242C778021,
      0xA2A99E317B3B27E3, 0x6609C5FA60BF41F7, 0x9AF2D9D1056BD8AC,
      0xFD5802F5FF924A4B, 0xA9C159EBC945C787, 0x3D80D1F59044E516,
      0x356C3CBCBD606A6A, 0x59003D654C49F51A, 0x112214913B3075B4,
      0xB3ABCA252150A92D] =
     [0xF18DF1B4C3AA2690, 0xDE3932D7D3CEC179, 0xC51D74C0D8E251BF,
      0x3A12327139D3262E, 0x5DFD62B5C1B54101, 0x77A4253BB7C0C593,
      0xFCEC21E481F32ED9, 0x9F669CAEB647D2C2, 0xCA820EA024C07EC0,
      0x823AB61BA7D2A26C, 0x0A894C17C0A5CED5, 0x0CB062B929A23F31,
      0x79CCB655458BC986, 0xCE30F332CC052259, 0x7A39DDAEBA13E5B9,
      0x335970982E449A6F, 0x27F80FC70D1246A0, 0x8EFE2128590C39AC,
      0x3B7FBB37DC436A72, 0x65847E9235409D26, 0x601338BAF6512240,
      0xF27082567B0FC648, 0x6C645B220FE374D7, 0xACCC63CCF8D2856B,
      0xAF7BFF9614452B95]"
  by (simp add: keccak_round_def iota_def chi_def rho_pi_def pi_src_def theta_def
      theta_apply_def theta_D_def theta_C_def rotl64_def keccak_rot_def upt_rec)

lemma keccak_round_hello_23:
  "keccak_round 0x8000000080008008
     [0xF18DF1B4C3AA2690, 0xDE3932D7D3CEC179, 0xC51D74C0D8E251BF,
      0x3A12327139D3262E, 0x5DFD62B5C1B54101, 0x77A4253BB7C0C593,
      0xFCEC21E481F32ED9, 0x9F669CAEB647D2C2, 0xCA820EA024C07EC0,
      0x823AB61BA7D2A26C, 0x0A894C17C0A5CED5, 0x0CB062B929A23F31,
      0x79CCB655458BC986, 0xCE30F332CC052259, 0x7A39DDAEBA13E5B9,
      0x335970982E449A6F, 0x27F80FC70D1246A0, 0x8EFE2128590C39AC,
      0x3B7FBB37DC436A72, 0x65847E9235409D26, 0x601338BAF6512240,
      0xF27082567B0FC648, 0x6C645B220FE374D7, 0xACCC63CCF8D2856B,
      0xAF7BFF9614452B95] =
     [0xEDC2850695FF8A1C, 0x7B2872344F17C34B, 0x2781949C7B51D956,
      0xC8EA6DA3A7099A31, 0xC07E940C2F72EF05, 0x0B6E553E36D57068,
      0x4E7AB041C3784E81, 0xB2AD11093B8AF2BA, 0xD8C10B5F10B1F349,
      0x7CA55B20DC25CE7E, 0x13971A94842CB301, 0xE91B110562AB3BFC,
      0x34B64E0AA6F2BD8A, 0x47DBEA17720F6F71, 0x8A60E190F9D1ABA9,
      0xCFCCB97BEA4BFBE6, 0xE35D097EF6A5420F, 0x07DB26ECBEACC524,
      0x33CD4268A3441D9E, 0x35A2A253E1DBF0F3, 0xCBB08998BC3FCAE5,
      0xA47AD35C4C51E59C, 0x8CADFA1ECEE9C309, 0x232076D70883DDB4,
      0xBB4A3C3EF11D43CA]"
  by (simp add: keccak_round_def iota_def chi_def rho_pi_def pi_src_def theta_def
      theta_apply_def theta_D_def theta_C_def rotl64_def keccak_rot_def upt_rec)

lemma keccak_f_hello:
  "keccak_f
     [0x0000016F6C6C6568, 0x0000000000000000, 0x0000000000000000,
      0x0000000000000000, 0x0000000000000000, 0x0000000000000000,
      0x0000000000000000, 0x0000000000000000, 0x0000000000000000,
      0x0000000000000000, 0x0000000000000000, 0x0000000000000000,
      0x0000000000000000, 0x0000000000000000, 0x0000000000000000,
      0x0000000000000000, 0x8000000000000000, 0x0000000000000000,
      0x0000000000000000, 0x0000000000000000, 0x0000000000000000,
      0x0000000000000000, 0x0000000000000000, 0x0000000000000000,
      0x0000000000000000] =
     [0xEDC2850695FF8A1C, 0x7B2872344F17C34B, 0x2781949C7B51D956,
      0xC8EA6DA3A7099A31, 0xC07E940C2F72EF05, 0x0B6E553E36D57068,
      0x4E7AB041C3784E81, 0xB2AD11093B8AF2BA, 0xD8C10B5F10B1F349,
      0x7CA55B20DC25CE7E, 0x13971A94842CB301, 0xE91B110562AB3BFC,
      0x34B64E0AA6F2BD8A, 0x47DBEA17720F6F71, 0x8A60E190F9D1ABA9,
      0xCFCCB97BEA4BFBE6, 0xE35D097EF6A5420F, 0x07DB26ECBEACC524,
      0x33CD4268A3441D9E, 0x35A2A253E1DBF0F3, 0xCBB08998BC3FCAE5,
      0xA47AD35C4C51E59C, 0x8CADFA1ECEE9C309, 0x232076D70883DDB4,
      0xBB4A3C3EF11D43CA]"
  by (simp only: keccak_f_def keccak_rc_def fold_simps o_apply id_apply
      keccak_round_hello_0 keccak_round_hello_1 keccak_round_hello_2 keccak_round_hello_3
       keccak_round_hello_4 keccak_round_hello_5 keccak_round_hello_6 keccak_round_hello_7
       keccak_round_hello_8 keccak_round_hello_9 keccak_round_hello_10 keccak_round_hello_11
       keccak_round_hello_12 keccak_round_hello_13 keccak_round_hello_14 keccak_round_hello_15
       keccak_round_hello_16 keccak_round_hello_17 keccak_round_hello_18 keccak_round_hello_19
       keccak_round_hello_20 keccak_round_hello_21 keccak_round_hello_22 keccak_round_hello_23)

lemma keccak256_hello:
  "keccak256 hello = hello_sha3"
  unfolding hello_def hello_sha3_def
  by (simp add: keccak256_def keccak_pad_hello chunks.simps keccak_absorb_def
      le_word64_def replicate_numeral keccak_f_hello le_bytes64_def)

section \<open>Facts about bytes and text forms\<close>

lemma length_copy_bytes: "length (copy_bytes dst src) = length dst"
  by (simp add: copy_bytes_def)

lemma copy_bytes_same_length: "length src = length dst \<Longrightarrow> copy_bytes dst src = src"
  by (simp add: copy_bytes_def)

lemma copy_bytes_zero_Hash: "copy_bytes zero_Hash src = take 32 src @ replicate (32 - length src) 0"
  by (simp add: copy_bytes_def zero_Hash_def)

lemma length_zero_Hash: "length zero_Hash = 32"
  by (simp add: zero_Hash_def)

lemma fst_append_slice: "fst (append_slice arr n elems) = take n arr @ elems"
  by (simp add: append_slice_def)

lemma length_snd_append_slice: "length (snd (append_slice arr n elems)) = length arr"
  by (simp add: append_slice_def)

lemma take_snd_append_slice: "n \<le> length arr \<Longrightarrow> take n (snd (append_slice arr n elems)) = take n arr"
  by (simp add: append_slice_def)

lemma length_string_bytes: "length (string_bytes str) = length str"
  by (simp add: string_bytes_def)

lemma unhexdigit_hexdigit: "n < 16 \<Longrightarrow> unhexdigit (hexdigit n) = Some n"
proof -
  have "\<forall>n \<in> set [0..<16]. unhexdigit (hexdigit n) = Some n"
    by (simp add: unhexdigit_def hexdigit_def upt_rec)
  then show "n < 16 \<Longrightarrow> unhexdigit (hexdigit n) = Some n"
    by simp
qed

lemma hexdigit_unhexdigit: "unhexdigit c = Some n \<Longrightarrow> n < 16 \<and> hexdigit n = c"
  by (auto simp: unhexdigit_def hexdigit_def split: if_splits)

lemma byte_of_nibbles: "(word_of_nat (16 * (unat b div 16) + unat b mod 16) :: byte) = b"
  by simp

lemma unat_byte_of_nat: "n < 256 \<Longrightarrow> unat (word_of_nat n :: byte) = n"
  by (simp add: unat_of_nat)

lemma nibbles_of_byte:
  assumes "hi < 16" "lo < 16"
  shows "unat (word_of_nat (16 * hi + lo) :: byte) div 16 = hi"
    and "unat (word_of_nat (16 * hi + lo) :: byte) mod 16 = lo"
proof -
  have "16 * hi + lo < 256"
    using assms by simp
  then have "unat (word_of_nat (16 * hi + lo) :: byte) = 16 * hi + lo"
    by (rule unat_byte_of_nat)
  then show "unat (word_of_nat (16 * hi + lo) :: byte) div 16 = hi"
    and "unat (word_of_nat (16 * hi + lo) :: byte) mod 16 = lo"
    using assms by (simp_all only: div_mult_self2 mod_mult_self2 div_less mod_less) simp_all
qed

lemma hex_decode_encode: "hex_decode (hex_encode bs) = Some bs"
proof (induction bs)
  case Nil
  show ?case by (simp add: hex_encode_def)
next
  case (Cons b bs)
  have "unat b div 16 < 16"
    using unsigned_less [of b, where ?'a = nat] by simp
  then show ?case
    using Cons by (simp add: hex_encode_def unhexdigit_hexdigit)
qed

lemma hex_encode_decode: "hex_decode str = Some bs \<Longrightarrow> hex_encode bs = str"
proof (induction str arbitrary: bs rule: hex_decode.induct)
  case 1
  then show ?case by (simp add: hex_encode_def)
next
  case (2 c)
  then show ?case by simp
next
  case (3 c d cs)
  from "3.prems" obtain hi lo rest where
    hi: "unhexdigit c = Some hi" and lo: "unhexdigit d = Some lo"
    and rest: "hex_decode cs = Some rest" and bs: "bs = word_of_nat (16 * hi + lo) # rest"
    by (auto split: option.splits)
  have "hex_encode rest = cs"
    using "3.IH" hi lo rest by simp
  moreover have "hi < 16" "hexdigit hi = c" "lo < 16" "hexdigit lo = d"
    using hexdigit_unhexdigit hi lo by blast+
  ultimately show ?case
    using bs nibbles_of_byte [of hi lo] by (simp add: hex_encode_def)
qed

lemma length_hex_encode: "length (hex_encode bs) = 2 * length bs"
  by (induction bs) (simp_all add: hex_encode_def)

lemma hex_encode_inject: "hex_encode a = hex_encode b \<Longrightarrow> a = b"
  by (metis hex_decode_encode option.inject)

lemma Hex_inject: "Hex a = Hex b \<Longrightarrow> a = b"
  by (simp add: Hex_def hex_encode_inject)

lemma split_prefix5:
  assumes "take 5 str = p" "length p = 5"
  shows "str = p @ drop 5 str"
  using assms by (metis append_take_drop_id)

lemma MarshalText_UnmarshalText:
  assumes "UnmarshalText str = Inr refID"
  shows "MarshalText refID = Inr str"
proof (cases "take 5 str = ''sha1:''")
  case True
  with assms obtain bs where bs: "hex_decode (drop 5 str) = Some bs" "length bs = 20"
    and r: "refID = \<lparr>HashAlg = SHA1, Hash = copy_bytes zero_Hash bs\<rparr>"
    by (auto simp: UnmarshalText_def split: option.splits if_splits)
  have "take 20 (Hash refID) = bs"
    using r bs by (simp add: copy_bytes_zero_Hash)
  moreover have "hex_encode bs = drop 5 str"
    using bs hex_encode_decode by blast
  moreover have "str = ''sha1:'' @ drop 5 str"
    using split_prefix5 [OF True] by simp
  ultimately show ?thesis
    using r by (simp add: MarshalText_def Hex_def)
next
  case False
  with assms have pre: "take 5 str = ''sha3:''"
    by (auto simp: UnmarshalText_def split: if_splits)
  with assms False obtain bs where bs: "hex_decode (drop 5 str) = Some bs" "length bs = 32"
    and r: "refID = \<lparr>HashAlg = SHA3, Hash = copy_bytes zero_Hash bs\<rparr>"
    by (auto simp: UnmarshalText_def split: option.splits if_splits)
  have "Hash refID = bs"
    using r bs by (simp add: copy_bytes_zero_Hash)
  moreover have "hex_encode bs = drop 5 str"
    using bs hex_encode_decode by blast
  moreover have "str = ''sha3:'' @ drop 5 str"
    using split_prefix5 [OF pre] by simp
  ultimately show ?thesis
    using r by (simp add: MarshalText_def Hex_def)
qed

lemma UnmarshalText_MarshalText_SHA3:
  assumes "length h = 32"
  shows "UnmarshalText (''sha3:'' @ Hex h) = Inr \<lparr>HashAlg = SHA3, Hash = h\<rparr>"
  using assms by (simp add: UnmarshalText_def Hex_def hex_decode_encode copy_bytes_zero_Hash)

lemma UnmarshalText_MarshalText_SHA1:
  assumes "length d = 20"
  shows "UnmarshalText (''sha1:'' @ Hex d) = Inr \<lparr>HashAlg = SHA1, Hash = d @ replicate 12 0\<rparr>"
  using assms by (simp add: UnmarshalText_def Hex_def hex_decode_encode copy_bytes_zero_Hash)

lemma set_RefsNeeded_loop:
  "set (RefsNeeded_loop keys) = {refID. \<exists>k \<in> set keys. UnmarshalText k = Inr refID}"
  by (induction keys) (auto split: sum.splits)

subsection \<open>The digests have their lengths\<close>

lemma length_sha1_round: "length (sha1_round w t v) = length v"
  by (induction w t v rule: sha1_round.induct) simp_all

lemma length_fold_sha1_round: "length (fold (sha1_round w) ts v) = length v"
  by (induction ts arbitrary: v) (simp_all add: length_sha1_round)

lemma length_sha1_block: "length (sha1_block h block) = length h"
  by (simp add: sha1_block_def length_fold_sha1_round)

lemma length_foldl_sha1_block: "length (foldl sha1_block h blocks) = length h"
  by (induction blocks arbitrary: h) (simp_all add: length_sha1_block)

lemma length_concat_be_bytes32: "length (concat (map be_bytes32 ws)) = 4 * length ws"
  by (induction ws) (simp_all add: be_bytes32_def)

lemma length_sha1: "length (sha1 m) = 20"
  by (simp add: sha1_def length_concat_be_bytes32 length_foldl_sha1_block sha1_init_def)

lemma length_keccak_round: "length (keccak_round rc A) = 25"
  by (simp add: keccak_round_def iota_def chi_def)

lemma length_fold_keccak_round:
  "length (fold keccak_round rcs A) = (if rcs = [] then length A else 25)"
proof (induction rcs arbitrary: A)
  case Nil
  show ?case by simp
next
  case (Cons rc rcs)
  then show ?case by (simp add: length_keccak_round)
qed

lemma length_keccak_absorb: "length (keccak_absorb A block) = 25"
proof -
  have "keccak_rc \<noteq> []"
    by (simp add: keccak_rc_def)
  then show ?thesis
    by (simp add: keccak_absorb_def keccak_f_def length_fold_keccak_round)
qed

lemma length_foldl_keccak_absorb:
  "length A = 25 \<Longrightarrow> length (foldl keccak_absorb A blocks) = 25"
  by (induction blocks arbitrary: A) (simp_all add: length_keccak_absorb)

lemma length_concat_le_bytes64: "length (concat (map le_bytes64 ws)) = 8 * length ws"
  by (induction ws) (simp_all add: le_bytes64_def)

lemma length_keccak256: "length (keccak256 m) = 32"
  by (simp add: keccak256_def length_concat_le_bytes64 length_foldl_keccak_absorb)

section \<open>Facts about the store operations\<close>

lemma TempFile_fresh: "TempFile f s = Some tmp \<Longrightarrow> root_files s tmp = None"
  by (auto simp: TempFile_def find_Some_iff)

lemma index_keys_distinct:
  "length a = 20 \<Longrightarrow> length b = 32 \<Longrightarrow>
   a @ string_bytes '':sha3'' \<noteq> b @ string_bytes '':sha1''"
proof
  assume "length a = 20" "length b = 32" "a @ string_bytes '':sha3'' = b @ string_bytes '':sha1''"
  then have "length (a @ string_bytes '':sha3'') = length (b @ string_bytes '':sha1'')"
    by simp
  then show False
    using \<open>length a = 20\<close> \<open>length b = 32\<close> by (simp add: string_bytes_def)
qed

lemma sha1_cell:
  "copy_bytes zero_Hash (sha1 B) = sha1 B @ replicate 12 0"
  by (simp add: copy_bytes_zero_Hash length_sha1)

lemma sha3_cell:
  "copy_bytes zero_Hash (keccak256 B) = keccak256 B"
  by (simp add: copy_bytes_zero_Hash length_keccak256)

lemma sha1_cell_after_append:
  "append_slice (sha1 B @ replicate 12 0) 20 (string_bytes '':sha3'') =
     (sha1 B @ string_bytes '':sha3'', sha1 B @ string_bytes '':sha3'' @ replicate 7 0)"
  by (simp add: append_slice_def length_sha1 string_bytes_def)

lemma unmarkRefsAsNeeded_files [simp]:
  "blob_files (unmarkRefsAsNeeded f s refs) = blob_files s"
  "root_files (unmarkRefsAsNeeded f s refs) = root_files s"
  "metadata (unmarkRefsAsNeeded f s refs) = metadata s"
  "rootPath (unmarkRefsAsNeeded f s refs) = rootPath s"
  by (simp_all add: unmarkRefsAsNeeded_def split: sum.splits)

text \<open>What a run of \<^verbatim>\<open>StoreObject\<close> that returns no error has done.\<close>

lemma StoreObject_success:
  assumes "StoreObject f s B = ((h1, h3, None), s')"
  shows "h1 = sha1 B @ string_bytes '':sha3'' @ replicate 7 0"
    and "h3 = keccak256 B"
    and "blob_files s' = AList.update (Hex (keccak256 B)) B (blob_files s)"
    and "metadata s' = (metadata s)
           (sha1 B @ string_bytes '':sha3'' \<mapsto> keccak256 B,
            keccak256 B @ string_bytes '':sha1'' \<mapsto> sha1 B)"
    and "root_files s' = root_files s"
    and "rootPath s' = rootPath s"
    and "missing_refs s' =
           missing_refs (unmarkRefsAsNeeded f s
             [\<lparr>HashAlg = SHA1, Hash = h1\<rparr>, \<lparr>HashAlg = SHA3, Hash = h3\<rparr>])"
    and "\<not> MkdirAll_fails f" and "TempFile f s \<noteq> None" and "Copy_fails f = None"
    and "\<not> Close_fails f" and "\<not> Rename_fails f" and "\<not> Update_mapping_fails f"
proof -
  from assms have ok: "\<not> MkdirAll_fails f" "Copy_fails f = None" "\<not> Close_fails f"
    "\<not> Rename_fails f" "\<not> Update_mapping_fails f"
    by (auto simp: StoreObject_def ensureRootPath_def Annotate_def store_mapping_def
        split: option.splits if_splits prod.splits)
  from assms obtain tmp where tmp: "TempFile f s = Some tmp"
    by (auto simp: StoreObject_def ensureRootPath_def Annotate_def
        split: option.splits if_splits)
  have fresh: "root_files s tmp = None"
    using tmp by (rule TempFile_fresh)
  have run: "StoreObject f s B =
      ((sha1 B @ string_bytes '':sha3'' @ replicate 7 0, keccak256 B, None),
       unmarkRefsAsNeeded f
         ((os_Rename (write_temp s tmp B) tmp (Hex (keccak256 B)))
            \<lparr>metadata := (metadata s)
               (sha1 B @ string_bytes '':sha3'' \<mapsto> keccak256 B,
                keccak256 B @ string_bytes '':sha1'' \<mapsto> sha1 B)\<rparr>)
         [\<lparr>HashAlg = SHA1, Hash = sha1 B @ string_bytes '':sha3'' @ replicate 7 0\<rparr>,
          \<lparr>HashAlg = SHA3, Hash = keccak256 B\<rparr>])"
    using ok tmp
    by (simp add: StoreObject_def ensureRootPath_def store_mapping_def sha1_cell sha3_cell
        sha1_cell_after_append fst_append_slice length_sha1 os_Rename_def write_temp_def)
  with assms show "h1 = sha1 B @ string_bytes '':sha3'' @ replicate 7 0" and "h3 = keccak256 B"
    by simp_all
  from run assms have s': "s' = unmarkRefsAsNeeded f
         ((os_Rename (write_temp s tmp B) tmp (Hex (keccak256 B)))
            \<lparr>metadata := (metadata s)
               (sha1 B @ string_bytes '':sha3'' \<mapsto> keccak256 B,
                keccak256 B @ string_bytes '':sha1'' \<mapsto> sha1 B)\<rparr>)
         [\<lparr>HashAlg = SHA1, Hash = h1\<rparr>, \<lparr>HashAlg = SHA3, Hash = h3\<rparr>]"
    by simp
  show "blob_files s' = AList.update (Hex (keccak256 B)) B (blob_files s)"
    by (simp add: s' os_Rename_def write_temp_def)
  show "metadata s' = (metadata s)
           (sha1 B @ string_bytes '':sha3'' \<mapsto> keccak256 B,
            keccak256 B @ string_bytes '':sha1'' \<mapsto> sha1 B)"
    by (simp add: s')
  show "root_files s' = root_files s"
    using fresh by (simp add: s' os_Rename_def write_temp_def fun_upd_idem)
  show "rootPath s' = rootPath s"
    by (simp add: s' os_Rename_def write_temp_def)
  show "missing_refs s' =
           missing_refs (unmarkRefsAsNeeded f s
             [\<lparr>HashAlg = SHA1, Hash = h1\<rparr>, \<lparr>HashAlg = SHA3, Hash = h3\<rparr>])"
    by (simp add: s' unmarkRefsAsNeeded_def load_missingRefs_def os_Rename_def write_temp_def
        split: sum.splits option.splits json_doc.splits)
  show "\<not> MkdirAll_fails f" "TempFile f s \<noteq> None" "Copy_fails f = None"
    "\<not> Close_fails f" "\<not> Rename_fails f" "\<not> Update_mapping_fails f"
    using ok tmp by simp_all
qed

text \<open>And a run into which no failure is injected returns no error.\<close>

lemma StoreObject_fault_free:
  assumes "\<not> MkdirAll_fails f" "TempFile f s \<noteq> None" "Copy_fails f = None"
    "\<not> Close_fails f" "\<not> Rename_fails f" "\<not> Update_mapping_fails f"
  shows "fst (StoreObject f s B) =
           (sha1 B @ string_bytes '':sha3'' @ replicate 7 0, keccak256 B, None)"
  using assms
  by (auto simp: StoreObject_def ensureRootPath_def store_mapping_def sha1_cell sha3_cell
      sha1_cell_after_append split: option.splits)

lemma stored_index_lookup:
  assumes "metadata s' = (metadata s)
           (sha1 B @ string_bytes '':sha3'' \<mapsto> keccak256 B,
            keccak256 B @ string_bytes '':sha1'' \<mapsto> sha1 B)"
    and "\<not> View_fails f"
  shows "sha3ForSHA1 f s' (sha1 B @ string_bytes '':sha3'' @ replicate 7 0) = Inr (keccak256 B)"
proof -
  have "sha1 B @ string_bytes '':sha3'' \<noteq> keccak256 B @ string_bytes '':sha1''"
    by (rule index_keys_distinct) (simp_all add: length_sha1 length_keccak256)
  then have "metadata s' (sha1 B @ string_bytes '':sha3'') = Some (keccak256 B)"
    using assms(1) by simp
  then show ?thesis
    using assms(2)
    by (simp add: sha3ForSHA1_def View_Get_def fst_append_slice length_sha1
        copy_bytes_same_length length_keccak256 length_zero_Hash)
qed

lemma stored_blob_lookup:
  assumes "blob_files s' = AList.update (Hex (keccak256 B)) B (blob_files s)"
  shows "map_of (blob_files s') (Hex (keccak256 B)) = Some B"
  using assms by (simp add: update_conv')

lemma AllHashes_loop_cong:
  assumes "metadata s' = metadata s"
  shows "AllHashes_loop f s' ms = AllHashes_loop f s ms"
  using assms
  by (induction ms) (simp_all add: sha1ForSHA3_def View_Get_def split: sum.splits)

lemma RefsNeeded_loop_removeAll:
  assumes "refID \<in> set (RefsNeeded_loop (removeAll k keys))"
  shows "MarshalText refID \<noteq> Inr k"
proof
  assume m: "MarshalText refID = Inr k"
  from assms obtain k' where k': "k' \<in> set (removeAll k keys)" "UnmarshalText k' = Inr refID"
    by (auto simp: set_RefsNeeded_loop)
  then have "MarshalText refID = Inr k'"
    using MarshalText_UnmarshalText by blast
  with m k'(1) show False
    by simp
qed

lemma RefsNeeded_loop_subset:
  assumes "set keys' \<subseteq> set keys"
  shows "set (RefsNeeded_loop keys') \<subseteq> set (RefsNeeded_loop keys)"
  using assms by (auto simp: set_RefsNeeded_loop)

subsection \<open>Canonical paths under a clean root\<close>

lemma split_slash_plain: "CHR ''/'' \<notin> set x \<Longrightarrow> split_slash x = [x]"
  by (induction x) auto

lemma split_slash_cons: "CHR ''/'' \<notin> set x \<Longrightarrow> split_slash (x @ ''/'' @ rest) = x # split_slash rest"
  by (induction x) auto

lemma split_slash_join:
  "es \<noteq> [] \<Longrightarrow> \<forall>e \<in> set es. CHR ''/'' \<notin> set e \<Longrightarrow> split_slash (join_slash es) = es"
proof (induction es rule: join_slash.induct)
  case 1
  then show ?case by simp
next
  case (2 x)
  then show ?case by (simp add: split_slash_plain)
next
  case (3 x y ys)
  then show ?case
    using split_slash_cons [of x "join_slash (y # ys)"] by simp
qed

lemma foldl_clean_step_plain:
  "\<forall>e \<in> set es. plain_elem e \<Longrightarrow> foldl (clean_step rooted) stack es = rev es @ stack"
  by (induction es arbitrary: stack) (simp_all add: clean_step_def plain_elem_def)

lemma join_slash_append:
  "xs \<noteq> [] \<Longrightarrow> ys \<noteq> [] \<Longrightarrow> join_slash (xs @ ys) = join_slash xs @ ''/'' @ join_slash ys"
proof (induction xs rule: join_slash.induct)
  case 1
  then show ?case by simp
next
  case (2 x)
  then show ?case by (cases ys) simp_all
next
  case (3 x y zs)
  then show ?case by simp
qed

lemma filepath_Clean_rooted:
  assumes "es \<noteq> []" and "\<forall>e \<in> set es. plain_elem e"
  shows "filepath_Clean (''/'' @ join_slash es) = ''/'' @ join_slash es"
proof -
  have "\<forall>e \<in> set es. CHR ''/'' \<notin> set e"
    using assms(2) by (simp add: plain_elem_def)
  then have "split_slash (''/'' @ join_slash es) = [] # es"
    using assms(1) by (simp add: split_slash_join)
  then show ?thesis
    using assms(2) by (simp add: filepath_Clean_def foldl_clean_step_plain clean_step_def)
qed

lemma hexdigit_chars: "n < 16 \<Longrightarrow> hexdigit n \<in> set ''0123456789abcdef''"
  unfolding hexdigit_def by (rule nth_mem) simp

lemma set_hex_encode: "set (hex_encode bs) \<subseteq> set ''0123456789abcdef''"
proof (induction bs)
  case Nil
  show ?case by (simp add: hex_encode_def)
next
  case (Cons b bs)
  have "unat b div 16 < 16"
    using unsigned_less [of b, where ?'a = nat] by simp
  moreover have "unat b mod 16 < 16"
    by simp
  ultimately have "hexdigit (unat b div 16) \<in> set ''0123456789abcdef''"
    and "hexdigit (unat b mod 16) \<in> set ''0123456789abcdef''"
    using hexdigit_chars by blast+
  then show ?case
    using Cons by (simp add: hex_encode_def)
qed

lemma plain_elem_Hex: "h \<noteq> [] \<Longrightarrow> plain_elem (Hex h)"
proof -
  assume "h \<noteq> []"
  then have "length (Hex h) \<ge> 2"
    by (cases h) (simp_all add: Hex_def length_hex_encode)
  moreover have "CHR ''/'' \<notin> set (Hex h)" "CHR ''.'' \<notin> set (Hex h)"
    using set_hex_encode [of h] by (auto simp: Hex_def)
  ultimately show "plain_elem (Hex h)"
    by (auto simp: plain_elem_def)
qed

lemma canonical_path_clean_root:
  assumes "comps \<noteq> []" and "\<forall>e \<in> set comps. plain_elem e" and "h \<noteq> []"
  shows "filepath_Join [''/'' @ join_slash comps, ''blobs'', Hex h] =
           ''/'' @ join_slash comps @ ''/blobs/'' @ Hex h"
proof -
  have plain: "\<forall>e \<in> set (comps @ [''blobs'', Hex h]). plain_elem e"
    using assms(2) plain_elem_Hex [OF assms(3)] by (auto simp: plain_elem_def)
  have "join_slash [''/'' @ join_slash comps, ''blobs'', Hex h] =
      ''/'' @ join_slash (comps @ [''blobs'', Hex h])"
    using assms(1) by (simp add: join_slash_append)
  moreover have "filepath_Clean (''/'' @ join_slash (comps @ [''blobs'', Hex h])) =
      ''/'' @ join_slash (comps @ [''blobs'', Hex h])"
    using plain by (intro filepath_Clean_rooted) simp_all
  ultimately show ?thesis
    using assms(1) by (simp add: filepath_Join_def join_slash_append)
qed

section \<open>Runs on concrete inputs\<close>

lemma TempFile_no_faults: "root_files s ''temp-000000001'' = None \<Longrightarrow>
    TempFile (no_faults\<lparr>TempFile_draws := [''000000001'']\<rparr>) s = Some ''temp-000000001''"
  by (simp add: TempFile_def no_faults_def)

lemma Hex_hello_sha1: "Hex hello_sha1 = ''aaf4c61ddcc5e8a2dabede0f3b482cd9aea9434d''"
  by (simp add: Hex_def hex_encode_def hexdigit_def hello_sha1_def)

lemma Hex_hello_sha3:
  "Hex hello_sha3 = ''1c8aff950685c2ed4bc3174f3472287b56d9517b9c948127319a09a7a36deac8''"
  by (simp add: Hex_def hex_encode_def hexdigit_def hello_sha3_def)

lemma length_hello_sha1: "length hello_sha1 = 20"
  by (simp add: hello_sha1_def)

lemma length_hello_sha3: "length hello_sha3 = 32"
  by (simp add: hello_sha3_def)

lemma hello_run:
  "StoreObject no_faults empty_store hello =
     ((hello_sha1 @ string_bytes '':sha3'' @ replicate 7 0, hello_sha3, None),
      snd (StoreObject no_faults empty_store hello))"
proof -
  have "fst (StoreObject no_faults empty_store hello) =
      (sha1 hello @ string_bytes '':sha3'' @ replicate 7 0, keccak256 hello, None)"
    by (rule StoreObject_fault_free)
      (simp_all add: no_faults_def TempFile_def empty_store_def)
  then show ?thesis
    by (simp add: prod_eq_iff sha1_hello keccak256_hello)
qed

section \<open>The claims\<close>

text \<open>
  C1 (round trip). When \<^verbatim>\<open>StoreObject\<close> on a reader that delivers the bytes \<open>B\<close>
  returns the hashes \<open>h1\<close> and \<open>h3\<close> and no error, then \<^verbatim>\<open>Object\<close> on the SHA3
  reference of \<open>h3\<close> and on the SHA1 reference of \<open>h1\<close>, run without a failure of the
  file system or the index, both return a stream with the contents \<open>B\<close> and the length
  of \<open>B\<close>.
\<close>

theorem StoreObject_Object_roundtrip:
  assumes "StoreObject f s B = ((h1, h3, None), s')"
    and "\<not> MkdirAll_fails f'" and "\<not> View_fails f'"
    and "\<not> Stat_fails f'" and "\<not> Open_fails f'"
  shows "Object f' s' \<lparr>HashAlg = SHA3, Hash = h3\<rparr> = Inr (B, int (length B)) \<and>
         Object f' s' \<lparr>HashAlg = SHA1, Hash = h1\<rparr> = Inr (B, int (length B))"
proof -
  note st = StoreObject_success [OF assms(1)]
  have blob: "map_of (blob_files s') (Hex (keccak256 B)) = Some B"
    using st(3) by (rule stored_blob_lookup)
  have by3: "objectBySHA3 f' s' (keccak256 B) = Inr (B, int (length B))"
    using blob assms(4,5) by (simp add: objectBySHA3_def os_Stat_def os_Open_def)
  have idx: "sha3ForSHA1 f' s' (sha1 B @ string_bytes '':sha3'' @ replicate 7 0) = Inr (keccak256 B)"
    using st(4) assms(3) by (rule stored_index_lookup)
  show ?thesis
    using by3 idx assms(2) st(1,2)
    by (simp add: Object_def ensureRootPath_def objectBySHA1_def)
qed

theorem StoreObject_Object_roundtrip_witness:
  "StoreObject no_faults empty_store hello =
     ((hello_sha1 @ string_bytes '':sha3'' @ replicate 7 0, hello_sha3, None),
      snd (StoreObject no_faults empty_store hello)) \<and>
   \<not> MkdirAll_fails no_faults \<and> \<not> View_fails no_faults \<and>
   \<not> Stat_fails no_faults \<and> \<not> Open_fails no_faults \<and>
   Object no_faults (snd (StoreObject no_faults empty_store hello))
     \<lparr>HashAlg = SHA3, Hash = hello_sha3\<rparr> = Inr (hello, 5) \<and>
   Object no_faults (snd (StoreObject no_faults empty_store hello))
     \<lparr>HashAlg = SHA1, Hash = hello_sha1 @ string_bytes '':sha3'' @ replicate 7 0\<rparr> =
     Inr (hello, 5)"
proof -
  have flags: "\<not> MkdirAll_fails no_faults" "\<not> View_fails no_faults"
    "\<not> Stat_fails no_faults" "\<not> Open_fails no_faults"
    by (simp_all add: no_faults_def)
  have "length hello = 5"
    by (simp add: hello_def)
  then show ?thesis
    using StoreObject_Object_roundtrip [OF hello_run flags] hello_run flags by simp
qed

lemma StoreObject_returned_hashes:
  assumes "StoreObject f s B = ((h1, h3, None), s')"
  shows "take 20 h1 = sha1 B" and "h3 = keccak256 B"
    and "h1 = sha1 B @ string_bytes '':sha3'' @ replicate 7 0"
    and "h1 \<noteq> copy_bytes zero_Hash (sha1 B)"
proof -
  note st = StoreObject_success [OF assms]
  show "take 20 h1 = sha1 B"
    using st(1) by (simp add: length_sha1)
  show "h3 = keccak256 B" and "h1 = sha1 B @ string_bytes '':sha3'' @ replicate 7 0"
    using st(1,2) by simp_all
  show "h1 \<noteq> copy_bytes zero_Hash (sha1 B)"
    using st(1) by (simp add: sha1_cell string_bytes_def replicate_numeral)
qed

lemma stored_reverse_lookup:
  assumes "metadata s' = (metadata s)
           (sha1 B @ string_bytes '':sha3'' \<mapsto> keccak256 B,
            keccak256 B @ string_bytes '':sha1'' \<mapsto> sha1 B)"
    and "\<not> View_fails f"
  shows "sha1ForSHA3 f s' (keccak256 B) = Inr (sha1 B @ replicate 12 0)"
  using assms by (simp add: sha1ForSHA3_def View_Get_def fst_append_slice sha1_cell)

text \<open>
  C2 (digests). Claimed: the hashes a successful \<^verbatim>\<open>StoreObject\<close> returns are the SHA-1
  and the Keccak-256 digest of the bytes, \<^verbatim>\<open>aaf4c61ddcc5e8a2dabede0f3b482cd9aea9434d\<close> and
  \<^verbatim>\<open>1c8aff950685c2ed4bc3174f3472287b56d9517b9c948127319a09a7a36deac8\<close> for the five bytes
  \<^verbatim>\<open>hello\<close>. The Keccak-256 half holds. \<^verbatim>\<open>StoreObject\<close> copies the SHA-1 digest into its
  zeroed cell, but the key of the index transaction, \<^verbatim>\<open>append(sha1Hash[:20], ":sha3"...)\<close>,
  is appended in place: the cell it returns has the bytes of \<^verbatim>\<open>:sha3\<close> after the digest
  and is not the SHA-1 cell, which the index lookup \<^verbatim>\<open>sha1ForSHA3\<close> does return for
  the same content.
\<close>

theorem StoreObject_sha1_cell_clobbered:
  "fst (StoreObject no_faults empty_store hello) =
     (hello_sha1 @ string_bytes '':sha3'' @ replicate 7 0, hello_sha3, None) \<and>
   Hex (hello_sha1 @ string_bytes '':sha3'' @ replicate 7 0) =
     ''aaf4c61ddcc5e8a2dabede0f3b482cd9aea9434d3a7368613300000000000000'' \<and>
   copy_bytes zero_Hash (sha1 hello) = hello_sha1 @ replicate 12 0 \<and>
   Hex (copy_bytes zero_Hash (sha1 hello)) =
     ''aaf4c61ddcc5e8a2dabede0f3b482cd9aea9434d000000000000000000000000'' \<and>
   hello_sha1 @ string_bytes '':sha3'' @ replicate 7 0 \<noteq> copy_bytes zero_Hash (sha1 hello) \<and>
   sha1ForSHA3 no_faults (snd (StoreObject no_faults empty_store hello)) hello_sha3 =
     Inr (hello_sha1 @ replicate 12 0) \<and>
   keccak256 hello = hello_sha3 \<and>
   Hex hello_sha3 = ''1c8aff950685c2ed4bc3174f3472287b56d9517b9c948127319a09a7a36deac8''"
proof -
  have run: "fst (StoreObject no_faults empty_store hello) =
      (hello_sha1 @ string_bytes '':sha3'' @ replicate 7 0, hello_sha3, None)"
    by (subst hello_run) simp
  have returned: "Hex (hello_sha1 @ string_bytes '':sha3'' @ replicate 7 0) =
      ''aaf4c61ddcc5e8a2dabede0f3b482cd9aea9434d3a7368613300000000000000''"
    by (simp add: Hex_def hex_encode_def hexdigit_def hello_sha1_def string_bytes_def
        replicate_numeral)
  have cell: "copy_bytes zero_Hash (sha1 hello) = hello_sha1 @ replicate 12 0"
    using sha1_cell [of hello] by (simp add: sha1_hello)
  have padded: "Hex (copy_bytes zero_Hash (sha1 hello)) =
      ''aaf4c61ddcc5e8a2dabede0f3b482cd9aea9434d000000000000000000000000''"
    by (simp add: cell Hex_def hex_encode_def hexdigit_def hello_sha1_def replicate_numeral)
  have differ: "hello_sha1 @ string_bytes '':sha3'' @ replicate 7 0 \<noteq>
      copy_bytes zero_Hash (sha1 hello)"
    by (simp add: cell string_bytes_def replicate_numeral)
  have "sha1ForSHA3 no_faults (snd (StoreObject no_faults empty_store hello)) (keccak256 hello) =
      Inr (sha1 hello @ replicate 12 0)"
    by (rule stored_reverse_lookup [OF StoreObject_success(4) [OF hello_run]])
      (simp add: no_faults_def)
  then have lookup: "sha1ForSHA3 no_faults (snd (StoreObject no_faults empty_store hello))
      hello_sha3 = Inr (hello_sha1 @ replicate 12 0)"
    by (simp add: sha1_hello keccak256_hello)
  show ?thesis
    by (intro conjI run returned cell padded differ lookup keccak256_hello Hex_hello_sha3)
qed

text \<open>
  C9 (no mapping is not an error). For a SHA1 reference whose hash has no entry in
  the SHA1-to-SHA3 index, \<^verbatim>\<open>HaveObject\<close> returns false and no error; there the only
  error it can return is a failure of the index lookup other than key-not-found. An
  unknown hash algorithm is an error.
\<close>

theorem HaveObject_unmapped_SHA1:
  "(metadata s (take 20 h @ string_bytes '':sha3'') = None \<longrightarrow>
      HaveObject f s \<lparr>HashAlg = SHA1, Hash = h\<rparr> =
        (if View_fails f then Inl ErrIndex else Inr False)) \<and>
   HaveObject f s \<lparr>HashAlg = HashAlgUnknown, Hash = h\<rparr> = Inl ErrUnknownHashType"
  by (simp add: HaveObject_def sha3ForSHA1_def View_Get_def fst_append_slice)

theorem HaveObject_unmapped_SHA1_witness:
  "metadata empty_store (take 20 (hello_sha1 @ replicate 12 0) @ string_bytes '':sha3'') = None \<and>
   HaveObject no_faults empty_store \<lparr>HashAlg = SHA1, Hash = hello_sha1 @ replicate 12 0\<rparr> =
     Inr False \<and>
   HaveObject (no_faults\<lparr>View_fails := True\<rparr>) empty_store
     \<lparr>HashAlg = SHA1, Hash = hello_sha1 @ replicate 12 0\<rparr> = Inl ErrIndex"
  using HaveObject_unmapped_SHA1 [of empty_store "hello_sha1 @ replicate 12 0" no_faults]
    HaveObject_unmapped_SHA1 [of empty_store "hello_sha1 @ replicate 12 0"
      "no_faults\<lparr>View_fails := True\<rparr>"]
  by (simp add: empty_store_def no_faults_def)

text \<open>
  C10 (path of a SHA3 reference). For every hash, \<^verbatim>\<open>ObjectFilepath\<close> on its SHA3
  reference returns the canonical path, the join of the root, \<^verbatim>\<open>blobs\<close> and the
  lowercase hex of the hash, whatever the store holds and whatever fails around it:
  neither the index nor the file system is consulted. Under a clean absolute root the
  path reads root, \<^verbatim>\<open>/blobs/\<close>, hex. On a SHA1 reference the call fails exactly with the
  error of the index lookup.
\<close>

theorem ObjectFilepath_SHA3:
  "ObjectFilepath f s \<lparr>HashAlg = SHA3, Hash = h\<rparr> =
     Inr (filepath_Join [rootPath s, ''blobs'', Hex h]) \<and>
   set (Hex h) \<subseteq> set ''0123456789abcdef'' \<and> length (Hex h) = 2 * length h \<and>
   (rootPath s = ''/'' @ join_slash comps \<and> comps \<noteq> [] \<and> (\<forall>e \<in> set comps. plain_elem e) \<and>
      h \<noteq> [] \<longrightarrow>
      ObjectFilepath f s \<lparr>HashAlg = SHA3, Hash = h\<rparr> = Inr (rootPath s @ ''/blobs/'' @ Hex h)) \<and>
   (ObjectFilepath f s \<lparr>HashAlg = SHA1, Hash = h\<rparr> = Inl err \<longrightarrow>
      sha3ForSHA1 f s h = Inl err)"
proof -
  have "ObjectFilepath f s \<lparr>HashAlg = SHA3, Hash = h\<rparr> =
      Inr (filepath_Join [rootPath s, ''blobs'', Hex h])"
    by (simp add: ObjectFilepath_def filepathForSHA3Blob_def)
  moreover have "set (Hex h) \<subseteq> set ''0123456789abcdef''" "length (Hex h) = 2 * length h"
    using set_hex_encode [of h] by (simp_all add: Hex_def length_hex_encode)
  moreover have "ObjectFilepath f s \<lparr>HashAlg = SHA1, Hash = h\<rparr> = Inl err \<longrightarrow>
      sha3ForSHA1 f s h = Inl err"
    by (auto simp: ObjectFilepath_def split: sum.splits)
  ultimately show ?thesis
    using canonical_path_clean_root [of comps h] by auto
qed

theorem ObjectFilepath_SHA3_witness:
  "rootPath empty_store = ''/'' @ join_slash [''data'', ''redwood''] \<and>
   plain_elem ''data'' \<and> plain_elem ''redwood'' \<and> hello_sha3 \<noteq> [] \<and>
   ObjectFilepath no_faults empty_store \<lparr>HashAlg = SHA3, Hash = hello_sha3\<rparr> =
     Inr ''/data/redwood/blobs/1c8aff950685c2ed4bc3174f3472287b56d9517b9c948127319a09a7a36deac8'' \<and>
   ObjectFilepath no_faults empty_store \<lparr>HashAlg = SHA1, Hash = hello_sha1 @ replicate 12 0\<rparr> =
     Inl Err404 \<and>
   sha3ForSHA1 no_faults empty_store (hello_sha1 @ replicate 12 0) = Inl Err404"
proof -
  have sha1: "ObjectFilepath no_faults empty_store
      \<lparr>HashAlg = SHA1, Hash = hello_sha1 @ replicate 12 0\<rparr> = Inl Err404"
    by (simp add: ObjectFilepath_def sha3ForSHA1_def View_Get_def no_faults_def
        empty_store_def)
  have root: "rootPath empty_store = ''/'' @ join_slash [''data'', ''redwood'']"
    "plain_elem ''data''" "plain_elem ''redwood''" "hello_sha3 \<noteq> []"
    by (simp_all add: empty_store_def plain_elem_def hello_sha3_def)
  have "rootPath empty_store = ''/'' @ join_slash [''data'', ''redwood''] \<and>
      [''data'', ''redwood''] \<noteq> [] \<and> (\<forall>e \<in> set [''data'', ''redwood'']. plain_elem e) \<and>
      hello_sha3 \<noteq> []"
    using root by simp
  then have "ObjectFilepath no_faults empty_store \<lparr>HashAlg = SHA3, Hash = hello_sha3\<rparr> =
      Inr (rootPath empty_store @ ''/blobs/'' @ Hex hello_sha3)"
    using ObjectFilepath_SHA3 [of no_faults empty_store hello_sha3 "[''data'', ''redwood'']"
        Err404]
    by blast
  then have sha3: "ObjectFilepath no_faults empty_store \<lparr>HashAlg = SHA3, Hash = hello_sha3\<rparr> =
      Inr ''/data/redwood/blobs/1c8aff950685c2ed4bc3174f3472287b56d9517b9c948127319a09a7a36deac8''"
    by (simp add: empty_store_def Hex_hello_sha3)
  have idx: "sha3ForSHA1 no_faults empty_store (hello_sha1 @ replicate 12 0) = Inl Err404"
    using ObjectFilepath_SHA3 [of no_faults empty_store "hello_sha1 @ replicate 12 0"
        "[''data'', ''redwood'']" Err404] sha1
    by blast
  show ?thesis
    by (intro conjI root sha3 sha1 idx)
qed

text \<open>
  C3 (a failed store). Claimed: whenever \<^verbatim>\<open>StoreObject\<close> fails after the temporary file
  has been created, the temporary file is removed before it returns. The code never
  removes it: with a rename that fails, the file is still under the root afterwards.
\<close>

theorem StoreObject_temp_not_removed:
  "root_files empty_store ''temp-000000001'' = None \<and>
   fst (StoreObject (no_faults\<lparr>Rename_fails := True\<rparr>) empty_store hello) =
     (hello_sha1 @ replicate 12 0, hello_sha3,
      Some (ErrWrap ''refStore.StoreObject'' (ErrIO ''rename''))) \<and>
   root_files (snd (StoreObject (no_faults\<lparr>Rename_fails := True\<rparr>) empty_store hello))
     ''temp-000000001'' = Some hello"
  by (simp add: StoreObject_def ensureRootPath_def TempFile_def no_faults_def empty_store_def
      Annotate_def write_temp_def sha1_hello keccak256_hello copy_bytes_zero_Hash
      length_hello_sha1 length_hello_sha3)

text \<open>
  C3 as amended. When \<^verbatim>\<open>StoreObject\<close> fails after the temporary file has been
  created, the file is closed but not removed. After a copy, close or rename error it
  is still under the root, holding the bytes that were written, and nothing else has
  changed. After an error of the index transaction it has been renamed to the
  canonical blob path and stays there: what earlier steps committed is not rolled back.
\<close>

theorem StoreObject_failure_keeps_temp:
  assumes "StoreObject f s B = ((h1, h3, Some err), s')"
    and "\<not> MkdirAll_fails f" and "TempFile f s = Some tmpFile"
  shows "if Copy_fails f = None \<and> \<not> Close_fails f \<and> \<not> Rename_fails f
         then Update_mapping_fails f \<and> root_files s' = root_files s \<and>
              blob_files s' = AList.update (Hex (keccak256 B)) B (blob_files s) \<and>
              metadata s' = metadata s \<and> missing_refs s' = missing_refs s
         else root_files s' =
                (root_files s)(tmpFile \<mapsto> (case Copy_fails f of None \<Rightarrow> B | Some n \<Rightarrow> take n B)) \<and>
              blob_files s' = blob_files s \<and>
              metadata s' = metadata s \<and> missing_refs s' = missing_refs s"
proof -
  have fresh: "root_files s tmpFile = None"
    using assms(3) by (rule TempFile_fresh)
  show ?thesis
  proof (cases "Copy_fails f = None \<and> \<not> Close_fails f \<and> \<not> Rename_fails f")
    case True
    with assms fresh show ?thesis
      by (auto simp: StoreObject_def ensureRootPath_def store_mapping_def write_temp_def
          os_Rename_def sha3_cell Annotate_def fun_upd_idem
          split: prod.splits option.splits if_splits)
  next
    case False
    with assms show ?thesis
      by (auto simp: StoreObject_def ensureRootPath_def write_temp_def Annotate_def
          split: option.splits if_splits)
  qed
qed

theorem StoreObject_failure_keeps_temp_witness:
  "StoreObject (no_faults\<lparr>Copy_fails := Some 2\<rparr>) empty_store hello =
     ((zero_Hash, zero_Hash, Some (ErrWrap ''refStore.StoreObject'' (ErrIO ''copy''))),
      snd (StoreObject (no_faults\<lparr>Copy_fails := Some 2\<rparr>) empty_store hello)) \<and>
   \<not> MkdirAll_fails (no_faults\<lparr>Copy_fails := Some 2\<rparr>) \<and>
   TempFile (no_faults\<lparr>Copy_fails := Some 2\<rparr>) empty_store = Some ''temp-000000001'' \<and>
   root_files (snd (StoreObject (no_faults\<lparr>Copy_fails := Some 2\<rparr>) empty_store hello)) =
     (root_files empty_store)(''temp-000000001'' \<mapsto> [0x68, 0x65]) \<and>
   blob_files (snd (StoreObject (no_faults\<lparr>Copy_fails := Some 2\<rparr>) empty_store hello)) =
     blob_files empty_store"
proof -
  have tmp: "TempFile (no_faults\<lparr>Copy_fails := Some 2\<rparr>) empty_store = Some ''temp-000000001''"
    by (simp add: TempFile_def no_faults_def empty_store_def)
  have mk: "\<not> MkdirAll_fails (no_faults\<lparr>Copy_fails := Some 2\<rparr>)"
    by (simp add: no_faults_def)
  have run: "StoreObject (no_faults\<lparr>Copy_fails := Some 2\<rparr>) empty_store hello =
     ((zero_Hash, zero_Hash, Some (ErrWrap ''refStore.StoreObject'' (ErrIO ''copy''))),
      snd (StoreObject (no_faults\<lparr>Copy_fails := Some 2\<rparr>) empty_store hello))"
    using tmp by (simp add: StoreObject_def ensureRootPath_def no_faults_def Annotate_def)
  show ?thesis
    using StoreObject_failure_keeps_temp [OF run mk tmp] run mk tmp
    by (simp add: no_faults_def hello_def)
qed




text \<open>
  C5 (malformed missing set). Claimed: when the stored value cannot be decoded,
  \<^verbatim>\<open>RefsNeeded\<close> returns an empty set and no error. The code returns the error of
  \<^verbatim>\<open>json.Unmarshal\<close>.
\<close>

theorem RefsNeeded_malformed_is_error:
  "RefsNeeded no_faults (empty_store\<lparr>missing_refs := Some JSONInvalid\<rparr>) = Inl ErrJSON \<and>
   RefsNeeded no_faults (empty_store\<lparr>missing_refs := Some JSONInvalid\<rparr>) \<noteq> Inr []"
  by (simp add: RefsNeeded_def no_faults_def)

text \<open>
  C5 as amended. When the stored value cannot be decoded, \<^verbatim>\<open>RefsNeeded\<close> returns the
  decoding error (it only reads, so the stored value stays as it is). When the value
  is a well-formed set, the keys that are not the text form of a reference are skipped
  and the references of the other keys are returned.
\<close>

theorem RefsNeeded_decodes:
  "(missing_refs s = Some JSONInvalid \<longrightarrow>
      RefsNeeded f s = Inl (if View_fails f then ErrIndex else ErrJSON)) \<and>
   (missing_refs s = Some (JSONObject keys) \<and> \<not> View_fails f \<longrightarrow>
      (\<exists>refs. RefsNeeded f s = Inr refs \<and>
         set refs = {refID. \<exists>k \<in> set keys. UnmarshalText k = Inr refID}))"
  by (simp add: RefsNeeded_def set_RefsNeeded_loop)

theorem RefsNeeded_decodes_witness:
  "missing_refs (empty_store\<lparr>missing_refs := Some JSONInvalid\<rparr>) = Some JSONInvalid \<and>
   RefsNeeded no_faults (empty_store\<lparr>missing_refs := Some JSONInvalid\<rparr>) = Inl ErrJSON \<and>
   missing_refs (empty_store\<lparr>missing_refs :=
      Some (JSONObject [''not a ref'', ''sha3:'' @ Hex hello_sha3])\<rparr>) =
     Some (JSONObject [''not a ref'', ''sha3:'' @ Hex hello_sha3]) \<and>
   \<not> View_fails no_faults \<and>
   RefsNeeded no_faults (empty_store\<lparr>missing_refs :=
      Some (JSONObject [''not a ref'', ''sha3:'' @ Hex hello_sha3])\<rparr>) =
     Inr [\<lparr>HashAlg = SHA3, Hash = hello_sha3\<rparr>]"
proof -
  have "UnmarshalText (''sha3:'' @ Hex hello_sha3) = Inr \<lparr>HashAlg = SHA3, Hash = hello_sha3\<rparr>"
    using length_hello_sha3 by (rule UnmarshalText_MarshalText_SHA3)
  moreover have "UnmarshalText ''not a ref'' = Inl ErrBadRefID"
    by (simp add: UnmarshalText_def)
  ultimately show ?thesis
    using RefsNeeded_decodes [where f = no_faults
        and s = "empty_store\<lparr>missing_refs := Some JSONInvalid\<rparr>"]
      RefsNeeded_decodes [where f = no_faults
        and s = "empty_store\<lparr>missing_refs :=
          Some (JSONObject [''not a ref'', ''sha3:'' @ Hex hello_sha3])\<rparr>"
        and keys = "[''not a ref'', ''sha3:'' @ Hex hello_sha3]"]
    by (simp add: RefsNeeded_def no_faults_def)
qed

lemma HaveObject_stored:
  assumes "StoreObject f s B = ((h1, h3, None), s')"
    and "\<not> View_fails f'" and "\<not> Stat_fails f'"
  shows "HaveObject f' s' \<lparr>HashAlg = SHA3, Hash = h3\<rparr> = Inr True"
    and "HaveObject f' s' \<lparr>HashAlg = SHA1, Hash = h1\<rparr> = Inr True"
proof -
  note st = StoreObject_success [OF assms(1)]
  have blob: "map_of (blob_files s') (Hex (keccak256 B)) = Some B"
    using st(3) by (rule stored_blob_lookup)
  have idx: "sha3ForSHA1 f' s' (sha1 B @ string_bytes '':sha3'' @ replicate 7 0) = Inr (keccak256 B)"
    using st(4) assms(2) by (rule stored_index_lookup)
  show "HaveObject f' s' \<lparr>HashAlg = SHA3, Hash = h3\<rparr> = Inr True"
    using blob assms(3) st(2) by (simp add: HaveObject_def HaveObject_stat_def os_Stat_def)
  show "HaveObject f' s' \<lparr>HashAlg = SHA1, Hash = h1\<rparr> = Inr True"
    using blob idx assms(3) st(1) by (simp add: HaveObject_def HaveObject_stat_def os_Stat_def)
qed

lemma MarshalText_known:
  assumes "HaveObject f s refID = Inr have"
  shows "\<exists>k. MarshalText refID = Inr k"
  using assms by (cases "HashAlg refID") (simp_all add: HaveObject_def MarshalText_def)

lemma text_form_denotes_canonical:
  assumes "length (Hash refID) = 32" and "MarshalText refID = Inr k"
  shows "UnmarshalText k = Inr (canonical_form refID)"
proof (cases "HashAlg refID")
  case HashAlgUnknown
  with assms show ?thesis by (simp add: MarshalText_def)
next
  case SHA1
  with assms have k: "k = ''sha1:'' @ Hex (take 20 (Hash refID))"
    by (simp add: MarshalText_def)
  have "length (take 20 (Hash refID)) = 20"
    using assms(1) by simp
  then show ?thesis
    using UnmarshalText_MarshalText_SHA1 [of "take 20 (Hash refID)"] k SHA1
    by (simp add: canonical_form_def)
next
  case SHA3
  with assms have k: "k = ''sha3:'' @ Hex (Hash refID)"
    by (simp add: MarshalText_def)
  then have "UnmarshalText k = Inr \<lparr>HashAlg = SHA3, Hash = Hash refID\<rparr>"
    using UnmarshalText_MarshalText_SHA3 assms(1) by simp
  then show ?thesis
    using SHA3 by (simp add: canonical_form_def)
qed

lemma canonical_form_facts:
  "HashAlg (canonical_form refID) = HashAlg refID"
  "length (Hash refID) = 32 \<Longrightarrow>
     take 20 (Hash (canonical_form refID)) = take 20 (Hash refID)"
  "length (Hash refID) = 32 \<Longrightarrow> MarshalText (canonical_form refID) = MarshalText refID"
  "HashAlg refID = SHA3 \<Longrightarrow> canonical_form refID = refID"
  by (cases "HashAlg refID"; simp add: canonical_form_def MarshalText_def)+

lemma canonical_form_canonical:
  assumes "canonical_RefID refID"
  shows "canonical_form refID = refID"
proof (cases refID)
  case (fields alg h)
  show ?thesis
  proof (cases alg)
    case SHA1
    with assms fields have "drop 20 h = replicate 12 0"
      by (simp add: canonical_RefID_def)
    then have "take 20 h @ replicate 12 0 = h"
      by (metis append_take_drop_id)
    then show ?thesis
      using fields SHA1 by (simp add: canonical_form_def)
  qed (simp_all add: fields canonical_form_def)
qed

text \<open>
  C6 (marking). Claimed: for a reference the store does not have, after
  \<^verbatim>\<open>MarkRefsAsNeeded\<close> of it returns the reference is among those \<^verbatim>\<open>RefsNeeded\<close>
  returns. When the missing-refs transaction fails, \<^verbatim>\<open>MarkRefsAsNeeded\<close> logs the error
  and returns all the same (the source says "don't error out"), and the reference is
  not in the set.
\<close>

theorem MarkRefsAsNeeded_swallows_failure:
  "HaveObject (no_faults\<lparr>Update_missing_fails := True\<rparr>) empty_store
     \<lparr>HashAlg = SHA3, Hash = hello_sha3\<rparr> = Inr False \<and>
   MarkRefsAsNeeded (no_faults\<lparr>Update_missing_fails := True\<rparr>) empty_store
     [\<lparr>HashAlg = SHA3, Hash = hello_sha3\<rparr>] = Some empty_store \<and>
   RefsNeeded no_faults empty_store = Inr [] \<and>
   \<lparr>HashAlg = SHA3, Hash = hello_sha3\<rparr> \<notin> set []"
  by (simp add: HaveObject_def HaveObject_stat_def os_Stat_def MarkRefsAsNeeded_def
      load_missingRefs_def RefsNeeded_def no_faults_def empty_store_def)

text \<open>
  C6 as amended. For a reference the store has, \<^verbatim>\<open>MarkRefsAsNeeded\<close> of it leaves the
  persistent missing set as it is. For every reference (a 32-byte cell) that the store
  does not have, when the missing-refs transaction commits (the index does not fail
  and the stored value is absent or a well-formed set), \<^verbatim>\<open>MarkRefsAsNeeded\<close> returns
  and the reference is among those \<^verbatim>\<open>RefsNeeded\<close> then returns, in the form its text
  denotes: the same algorithm, digest and text form, and the reference itself when it
  is a SHA3 reference or has zeros after its SHA-1 digest. When the transaction fails,
  on the index or on an undecodable stored value, \<^verbatim>\<open>MarkRefsAsNeeded\<close> returns with the
  store unchanged.
\<close>

theorem MarkRefsAsNeeded_missing_set:
  "(HaveObject f s refID = Inr True \<longrightarrow>
      (\<exists>s'. MarkRefsAsNeeded f s [refID] = Some s' \<and> missing_doc s' = missing_doc s \<and>
         RefsNeeded f' s' = RefsNeeded f' s)) \<and>
   (HaveObject f s refID = Inr False \<and> length (Hash refID) = 32 \<and> \<not> Update_missing_fails f \<and>
      (missing_refs s = None \<or> missing_refs s = Some (JSONObject keys)) \<and> \<not> View_fails f' \<longrightarrow>
      (\<exists>s' refs. MarkRefsAsNeeded f s [refID] = Some s' \<and> RefsNeeded f' s' = Inr refs \<and>
         canonical_form refID \<in> set refs) \<and>
      HashAlg (canonical_form refID) = HashAlg refID \<and>
      take 20 (Hash (canonical_form refID)) = take 20 (Hash refID) \<and>
      MarshalText (canonical_form refID) = MarshalText refID \<and>
      (HashAlg refID = SHA3 \<longrightarrow> canonical_form refID = refID) \<and>
      (canonical_RefID refID \<longrightarrow> canonical_form refID = refID)) \<and>
   (Update_missing_fails f \<or> missing_refs s = Some JSONInvalid \<longrightarrow>
      MarkRefsAsNeeded f s [refID] = Some s)"
proof -
  have present: "HaveObject f s refID = Inr True \<longrightarrow>
      (\<exists>s'. MarkRefsAsNeeded f s [refID] = Some s' \<and> missing_doc s' = missing_doc s \<and>
         RefsNeeded f' s' = RefsNeeded f' s)"
  proof
    assume "HaveObject f s refID = Inr True"
    then have none: "actuallyNeeded f s [refID] = []"
      by simp
    show "\<exists>s'. MarkRefsAsNeeded f s [refID] = Some s' \<and> missing_doc s' = missing_doc s \<and>
           RefsNeeded f' s' = RefsNeeded f' s"
    proof (cases "load_missingRefs f s")
      case (Inl err)
      then show ?thesis
        by (simp add: MarkRefsAsNeeded_def)
    next
      case (Inr m)
      then have "MarkRefsAsNeeded f s [refID] = Some (s\<lparr>missing_refs := Some (json_Marshal m)\<rparr>)"
        using none by (simp add: MarkRefsAsNeeded_def)
      moreover have "missing_doc (s\<lparr>missing_refs := Some (json_Marshal m)\<rparr>) = missing_doc s"
        using Inr
        by (auto simp: load_missingRefs_def missing_doc_def json_Marshal_def
            split: if_splits option.splits json_doc.splits)
      moreover have "RefsNeeded f' (s\<lparr>missing_refs := Some (json_Marshal m)\<rparr>) = RefsNeeded f' s"
        using Inr
        by (auto simp: load_missingRefs_def RefsNeeded_def json_Marshal_def
            split: if_splits option.splits json_doc.splits)
      ultimately show ?thesis
        by simp
    qed
  qed
  have absent: "HaveObject f s refID = Inr False \<and> length (Hash refID) = 32 \<and>
      \<not> Update_missing_fails f \<and>
      (missing_refs s = None \<or> missing_refs s = Some (JSONObject keys)) \<and> \<not> View_fails f' \<longrightarrow>
      (\<exists>s' refs. MarkRefsAsNeeded f s [refID] = Some s' \<and> RefsNeeded f' s' = Inr refs \<and>
         canonical_form refID \<in> set refs) \<and>
      HashAlg (canonical_form refID) = HashAlg refID \<and>
      take 20 (Hash (canonical_form refID)) = take 20 (Hash refID) \<and>
      MarshalText (canonical_form refID) = MarshalText refID \<and>
      (HashAlg refID = SHA3 \<longrightarrow> canonical_form refID = refID) \<and>
      (canonical_RefID refID \<longrightarrow> canonical_form refID = refID)"
  proof
    assume a: "HaveObject f s refID = Inr False \<and> length (Hash refID) = 32 \<and>
      \<not> Update_missing_fails f \<and>
      (missing_refs s = None \<or> missing_refs s = Some (JSONObject keys)) \<and> \<not> View_fails f'"
    then have need: "actuallyNeeded f s [refID] = [refID]"
      by simp
    have len: "length (Hash refID) = 32"
      using a by simp
    from a obtain k where k: "MarshalText refID = Inr k"
      using MarshalText_known by blast
    have denotes: "UnmarshalText k = Inr (canonical_form refID)"
      using len k by (rule text_form_denotes_canonical)
    from a obtain ks where load: "load_missingRefs f s = Inr (Some ks)"
      by (auto simp: load_missingRefs_def)
    have "MarkRefsAsNeeded f s [refID] =
        Some (s\<lparr>missing_refs := Some (JSONObject (List.insert k ks))\<rparr>)"
      using load need k by (simp add: MarkRefsAsNeeded_def json_Marshal_def)
    moreover have "RefsNeeded f' (s\<lparr>missing_refs := Some (JSONObject (List.insert k ks))\<rparr>) =
        Inr (RefsNeeded_loop (List.insert k ks))"
      using a by (simp add: RefsNeeded_def)
    moreover have "canonical_form refID \<in> set (RefsNeeded_loop (List.insert k ks))"
      using denotes by (auto simp: set_RefsNeeded_loop)
    ultimately have ex: "\<exists>s' refs. MarkRefsAsNeeded f s [refID] = Some s' \<and>
        RefsNeeded f' s' = Inr refs \<and> canonical_form refID \<in> set refs"
      by simp
    have sha3: "HashAlg refID = SHA3 \<longrightarrow> canonical_form refID = refID"
      using canonical_form_facts(4) [of refID] by simp
    have canon: "canonical_RefID refID \<longrightarrow> canonical_form refID = refID"
      using canonical_form_canonical [of refID] by simp
    show "(\<exists>s' refs. MarkRefsAsNeeded f s [refID] = Some s' \<and> RefsNeeded f' s' = Inr refs \<and>
           canonical_form refID \<in> set refs) \<and>
        HashAlg (canonical_form refID) = HashAlg refID \<and>
        take 20 (Hash (canonical_form refID)) = take 20 (Hash refID) \<and>
        MarshalText (canonical_form refID) = MarshalText refID \<and>
        (HashAlg refID = SHA3 \<longrightarrow> canonical_form refID = refID) \<and>
        (canonical_RefID refID \<longrightarrow> canonical_form refID = refID)"
      by (intro conjI ex canonical_form_facts(1) canonical_form_facts(2,3) [OF len] sha3 canon)
  qed
  have failed: "Update_missing_fails f \<or> missing_refs s = Some JSONInvalid \<longrightarrow>
      MarkRefsAsNeeded f s [refID] = Some s"
    by (auto simp: MarkRefsAsNeeded_def load_missingRefs_def)
  show ?thesis
    by (intro conjI present absent failed)
qed

theorem MarkRefsAsNeeded_missing_set_witness:
  "HaveObject no_faults (snd (StoreObject no_faults empty_store hello))
     \<lparr>HashAlg = SHA3, Hash = hello_sha3\<rparr> = Inr True \<and>
   (\<exists>s'. MarkRefsAsNeeded no_faults (snd (StoreObject no_faults empty_store hello))
            [\<lparr>HashAlg = SHA3, Hash = hello_sha3\<rparr>] = Some s' \<and>
          missing_doc s' = missing_doc (snd (StoreObject no_faults empty_store hello))) \<and>
   HaveObject no_faults empty_store \<lparr>HashAlg = SHA3, Hash = hello_sha3\<rparr> = Inr False \<and>
   length hello_sha3 = 32 \<and>
   \<not> Update_missing_fails no_faults \<and> missing_refs empty_store = None \<and>
   \<not> View_fails no_faults \<and>
   (\<exists>s' refs. MarkRefsAsNeeded no_faults empty_store [\<lparr>HashAlg = SHA3, Hash = hello_sha3\<rparr>] =
        Some s' \<and>
      RefsNeeded no_faults s' = Inr refs \<and> \<lparr>HashAlg = SHA3, Hash = hello_sha3\<rparr> \<in> set refs) \<and>
   HaveObject no_faults empty_store
     \<lparr>HashAlg = SHA1, Hash = hello_sha1 @ string_bytes '':sha3'' @ replicate 7 0\<rparr> = Inr False \<and>
   length (hello_sha1 @ string_bytes '':sha3'' @ replicate 7 0) = 32 \<and>
   (\<exists>s' refs. MarkRefsAsNeeded no_faults empty_store
        [\<lparr>HashAlg = SHA1, Hash = hello_sha1 @ string_bytes '':sha3'' @ replicate 7 0\<rparr>] =
        Some s' \<and>
      RefsNeeded no_faults s' = Inr refs \<and>
      \<lparr>HashAlg = SHA1, Hash = hello_sha1 @ replicate 12 0\<rparr> \<in> set refs) \<and>
   missing_refs (empty_store\<lparr>missing_refs := Some JSONInvalid\<rparr>) = Some JSONInvalid \<and>
   MarkRefsAsNeeded no_faults (empty_store\<lparr>missing_refs := Some JSONInvalid\<rparr>)
     [\<lparr>HashAlg = SHA3, Hash = hello_sha3\<rparr>] =
     Some (empty_store\<lparr>missing_refs := Some JSONInvalid\<rparr>)"
proof -
  let ?r1 = "\<lparr>HashAlg = SHA1, Hash = hello_sha1 @ string_bytes '':sha3'' @ replicate 7 0\<rparr>"
  let ?r3 = "\<lparr>HashAlg = SHA3, Hash = hello_sha3\<rparr>"
  have have1: "HaveObject no_faults (snd (StoreObject no_faults empty_store hello)) ?r3 = Inr True"
    by (rule HaveObject_stored(1) [OF hello_run]) (simp_all add: no_faults_def)
  have have2: "HaveObject no_faults empty_store ?r3 = Inr False"
    by (simp add: HaveObject_def HaveObject_stat_def os_Stat_def no_faults_def empty_store_def)
  have have3: "HaveObject no_faults empty_store ?r1 = Inr False"
    by (simp add: HaveObject_def sha3ForSHA1_def View_Get_def no_faults_def empty_store_def)
  have len: "length (Hash ?r3) = 32" "length (Hash ?r1) = 32"
    by (simp_all add: length_hello_sha3 length_hello_sha1 string_bytes_def)
  have flags: "\<not> Update_missing_fails no_faults" "missing_refs empty_store = None"
    "\<not> View_fails no_faults"
    by (simp_all add: no_faults_def empty_store_def)
  have c1: "canonical_form ?r1 = \<lparr>HashAlg = SHA1, Hash = hello_sha1 @ replicate 12 0\<rparr>"
    by (simp add: canonical_form_def length_hello_sha1)
  have c3: "canonical_form ?r3 = ?r3"
    by (simp add: canonical_form_def)
  have part1: "\<exists>s'. MarkRefsAsNeeded no_faults (snd (StoreObject no_faults empty_store hello))
            [?r3] = Some s' \<and>
          missing_doc s' = missing_doc (snd (StoreObject no_faults empty_store hello))"
    using MarkRefsAsNeeded_missing_set [where f = no_faults and f' = no_faults
        and s = "snd (StoreObject no_faults empty_store hello)" and refID = ?r3] have1
    by blast
  have part2: "\<exists>s' refs. MarkRefsAsNeeded no_faults empty_store [?r3] = Some s' \<and>
      RefsNeeded no_faults s' = Inr refs \<and> ?r3 \<in> set refs"
    using MarkRefsAsNeeded_missing_set [where f = no_faults and f' = no_faults
        and s = empty_store and refID = ?r3] have2 len(1) flags c3
    by auto
  have part3: "\<exists>s' refs. MarkRefsAsNeeded no_faults empty_store [?r1] = Some s' \<and>
      RefsNeeded no_faults s' = Inr refs \<and>
      \<lparr>HashAlg = SHA1, Hash = hello_sha1 @ replicate 12 0\<rparr> \<in> set refs"
    using MarkRefsAsNeeded_missing_set [where f = no_faults and f' = no_faults
        and s = empty_store and refID = ?r1] have3 len(2) flags c1
    by auto
  have part4: "MarkRefsAsNeeded no_faults (empty_store\<lparr>missing_refs := Some JSONInvalid\<rparr>)
     [?r3] = Some (empty_store\<lparr>missing_refs := Some JSONInvalid\<rparr>)"
    using MarkRefsAsNeeded_missing_set [where f = no_faults and f' = no_faults
        and s = "empty_store\<lparr>missing_refs := Some JSONInvalid\<rparr>" and refID = ?r3]
    by simp
  show ?thesis
    using have1 part1 have2 len flags part2 have3 part3 part4 by simp
qed

lemma stale_run:
  "StoreObject (no_faults\<lparr>Update_missing_fails := True\<rparr>)
     (empty_store\<lparr>missing_refs := Some (JSONObject
        [''sha3:1c8aff950685c2ed4bc3174f3472287b56d9517b9c948127319a09a7a36deac8''])\<rparr>)
     hello =
     ((hello_sha1 @ string_bytes '':sha3'' @ replicate 7 0, hello_sha3, None),
      snd (StoreObject (no_faults\<lparr>Update_missing_fails := True\<rparr>)
        (empty_store\<lparr>missing_refs := Some (JSONObject
          [''sha3:1c8aff950685c2ed4bc3174f3472287b56d9517b9c948127319a09a7a36deac8''])\<rparr>)
        hello))"
proof -
  have "fst (StoreObject (no_faults\<lparr>Update_missing_fails := True\<rparr>)
     (empty_store\<lparr>missing_refs := Some (JSONObject
        [''sha3:1c8aff950685c2ed4bc3174f3472287b56d9517b9c948127319a09a7a36deac8''])\<rparr>)
     hello) =
      (sha1 hello @ string_bytes '':sha3'' @ replicate 7 0, keccak256 hello, None)"
    by (rule StoreObject_fault_free)
      (simp_all add: no_faults_def TempFile_def empty_store_def)
  then show ?thesis
    by (simp add: prod_eq_iff sha1_hello keccak256_hello)
qed

text \<open>
  C7 (storing unmarks). Claimed: after a successful \<^verbatim>\<open>StoreObject\<close> neither reference of
  the content is in the set \<^verbatim>\<open>RefsNeeded\<close> returns. \<^verbatim>\<open>unmarkRefsAsNeeded\<close> only logs
  the error of its transaction: when the index fails there, \<^verbatim>\<open>StoreObject\<close> still returns
  no error and the SHA3 reference, needed before, is needed afterwards.
\<close>

theorem StoreObject_stale_missing_set:
  "fst (StoreObject (no_faults\<lparr>Update_missing_fails := True\<rparr>)
     (empty_store\<lparr>missing_refs := Some (JSONObject
        [''sha3:1c8aff950685c2ed4bc3174f3472287b56d9517b9c948127319a09a7a36deac8''])\<rparr>)
     hello) = (hello_sha1 @ string_bytes '':sha3'' @ replicate 7 0, hello_sha3, None) \<and>
   RefsNeeded no_faults
     (snd (StoreObject (no_faults\<lparr>Update_missing_fails := True\<rparr>)
        (empty_store\<lparr>missing_refs := Some (JSONObject
          [''sha3:1c8aff950685c2ed4bc3174f3472287b56d9517b9c948127319a09a7a36deac8''])\<rparr>)
        hello)) = Inr [\<lparr>HashAlg = SHA3, Hash = hello_sha3\<rparr>] \<and>
   \<lparr>HashAlg = SHA3, Hash = hello_sha3\<rparr> \<in> set [\<lparr>HashAlg = SHA3, Hash = hello_sha3\<rparr>]"
proof -
  let ?f = "no_faults\<lparr>Update_missing_fails := True\<rparr>"
  let ?s = "empty_store\<lparr>missing_refs := Some (JSONObject
        [''sha3:1c8aff950685c2ed4bc3174f3472287b56d9517b9c948127319a09a7a36deac8''])\<rparr>"
  have "missing_refs (snd (StoreObject ?f ?s hello)) =
      missing_refs (unmarkRefsAsNeeded ?f ?s
        [\<lparr>HashAlg = SHA1, Hash = hello_sha1 @ string_bytes '':sha3'' @ replicate 7 0\<rparr>,
         \<lparr>HashAlg = SHA3, Hash = hello_sha3\<rparr>])"
    by (rule StoreObject_success(7) [OF stale_run])
  then have stale: "missing_refs (snd (StoreObject ?f ?s hello)) = missing_refs ?s"
    by (simp add: unmarkRefsAsNeeded_def load_missingRefs_def no_faults_def)
  have "UnmarshalText (''sha3:'' @ Hex hello_sha3) = Inr \<lparr>HashAlg = SHA3, Hash = hello_sha3\<rparr>"
    using length_hello_sha3 by (rule UnmarshalText_MarshalText_SHA3)
  then have "RefsNeeded no_faults (snd (StoreObject ?f ?s hello)) =
      Inr [\<lparr>HashAlg = SHA3, Hash = hello_sha3\<rparr>]"
    using stale by (simp add: RefsNeeded_def no_faults_def Hex_hello_sha3)
  moreover have "fst (StoreObject ?f ?s hello) =
      (hello_sha1 @ string_bytes '':sha3'' @ replicate 7 0, hello_sha3, None)"
    by (subst stale_run) simp
  ultimately show ?thesis
    by simp
qed

text \<open>
  C7 as amended. After a \<^verbatim>\<open>StoreObject\<close> that returns no error and whose missing-refs
  transaction is not failed by the index, \<^verbatim>\<open>RefsNeeded\<close> returns neither the SHA3
  reference of the content nor its SHA1 reference (as returned, and in canonical form),
  whatever the missing set held before; \<^verbatim>\<open>RefsNeeded\<close> fails only when the index fails
  or the stored set was undecodable already. When the index fails the transaction, the
  stored missing set stays as it was.
\<close>

theorem StoreObject_unmarks_refs:
  assumes "StoreObject f s B = ((h1, h3, None), s')"
  shows "if Update_missing_fails f then missing_refs s' = missing_refs s
         else (case RefsNeeded f' s' of
           Inl err \<Rightarrow> View_fails f' \<or> missing_refs s = Some JSONInvalid
         | Inr refs \<Rightarrow>
             \<lparr>HashAlg = SHA3, Hash = h3\<rparr> \<notin> set refs \<and>
             \<lparr>HashAlg = SHA1, Hash = h1\<rparr> \<notin> set refs \<and>
             \<lparr>HashAlg = SHA1, Hash = copy_bytes zero_Hash (sha1 B)\<rparr> \<notin> set refs)"
proof (cases "Update_missing_fails f")
  case True
  then show ?thesis
    using StoreObject_success(7) [OF assms]
    by (simp add: unmarkRefsAsNeeded_def load_missingRefs_def)
next
  case False
  note st = StoreObject_success [OF assms]
  let ?k1 = "''sha1:'' @ Hex (sha1 B)" and ?k3 = "''sha3:'' @ Hex (keccak256 B)"
  have m1: "MarshalText \<lparr>HashAlg = SHA1, Hash = h1\<rparr> = Inr ?k1"
    using st(1) by (simp add: MarshalText_def length_sha1)
  have m1c: "MarshalText \<lparr>HashAlg = SHA1, Hash = copy_bytes zero_Hash (sha1 B)\<rparr> = Inr ?k1"
    by (simp add: MarshalText_def sha1_cell length_sha1)
  have m3: "MarshalText \<lparr>HashAlg = SHA3, Hash = h3\<rparr> = Inr ?k3"
    using st(2) by (simp add: MarshalText_def)
  have loop: "unmark_loop m [\<lparr>HashAlg = SHA1, Hash = h1\<rparr>, \<lparr>HashAlg = SHA3, Hash = h3\<rparr>] =
      map_option (removeAll ?k3 \<circ> removeAll ?k1) m" for m
    using m1 m3 by (cases m) simp_all
  show ?thesis
  proof (cases "missing_refs s")
    case None
    then show ?thesis
      using False st(7) loop
      by (simp add: unmarkRefsAsNeeded_def load_missingRefs_def json_Marshal_def RefsNeeded_def)
  next
    case (Some doc)
    show ?thesis
    proof (cases doc)
      case JSONInvalid
      then show ?thesis
        using Some False st(7)
        by (simp add: unmarkRefsAsNeeded_def load_missingRefs_def RefsNeeded_def)
    next
      case JSONNull
      then show ?thesis
        using Some False st(7) loop
        by (simp add: unmarkRefsAsNeeded_def load_missingRefs_def json_Marshal_def
            RefsNeeded_def)
    next
      case (JSONObject ks)
      then have after: "missing_refs s' = Some (JSONObject (removeAll ?k3 (removeAll ?k1 ks)))"
        using Some False st(7) loop
        by (simp add: unmarkRefsAsNeeded_def load_missingRefs_def json_Marshal_def)
      have no3: "refID \<in> set (RefsNeeded_loop (removeAll ?k3 (removeAll ?k1 ks))) \<Longrightarrow>
          MarshalText refID \<noteq> Inr ?k3" for refID
        by (rule RefsNeeded_loop_removeAll)
      have "set (RefsNeeded_loop (removeAll ?k3 (removeAll ?k1 ks))) \<subseteq>
          set (RefsNeeded_loop (removeAll ?k1 ks))"
        by (rule RefsNeeded_loop_subset) auto
      then have no1: "refID \<in> set (RefsNeeded_loop (removeAll ?k3 (removeAll ?k1 ks))) \<Longrightarrow>
          MarshalText refID \<noteq> Inr ?k1" for refID
        using RefsNeeded_loop_removeAll by blast
      show ?thesis
        using False after no1 no3 m1 m1c m3 by (auto simp: RefsNeeded_def)
    qed
  qed
qed

lemma needy_run:
  "StoreObject no_faults
     (empty_store\<lparr>missing_refs := Some (JSONObject
        [''sha3:'' @ Hex hello_sha3, ''sha3:'' @ Hex zero_Hash, ''sha1:'' @ Hex hello_sha1])\<rparr>)
     hello =
     ((hello_sha1 @ string_bytes '':sha3'' @ replicate 7 0, hello_sha3, None),
      snd (StoreObject no_faults
        (empty_store\<lparr>missing_refs := Some (JSONObject
          [''sha3:'' @ Hex hello_sha3, ''sha3:'' @ Hex zero_Hash, ''sha1:'' @ Hex hello_sha1])\<rparr>)
        hello))"
proof -
  have "fst (StoreObject no_faults
     (empty_store\<lparr>missing_refs := Some (JSONObject
        [''sha3:'' @ Hex hello_sha3, ''sha3:'' @ Hex zero_Hash, ''sha1:'' @ Hex hello_sha1])\<rparr>)
     hello) =
      (sha1 hello @ string_bytes '':sha3'' @ replicate 7 0, keccak256 hello, None)"
    by (rule StoreObject_fault_free)
      (simp_all add: no_faults_def TempFile_def empty_store_def)
  then show ?thesis
    by (simp add: prod_eq_iff sha1_hello keccak256_hello)
qed

theorem StoreObject_unmarks_refs_witness:
  "StoreObject no_faults
     (empty_store\<lparr>missing_refs := Some (JSONObject
        [''sha3:'' @ Hex hello_sha3, ''sha3:'' @ Hex zero_Hash, ''sha1:'' @ Hex hello_sha1])\<rparr>)
     hello =
     ((hello_sha1 @ string_bytes '':sha3'' @ replicate 7 0, hello_sha3, None),
      snd (StoreObject no_faults
        (empty_store\<lparr>missing_refs := Some (JSONObject
          [''sha3:'' @ Hex hello_sha3, ''sha3:'' @ Hex zero_Hash, ''sha1:'' @ Hex hello_sha1])\<rparr>)
        hello)) \<and>
   \<not> Update_missing_fails no_faults \<and>
   RefsNeeded no_faults
     (snd (StoreObject no_faults
        (empty_store\<lparr>missing_refs := Some (JSONObject
          [''sha3:'' @ Hex hello_sha3, ''sha3:'' @ Hex zero_Hash, ''sha1:'' @ Hex hello_sha1])\<rparr>)
        hello)) = Inr [\<lparr>HashAlg = SHA3, Hash = zero_Hash\<rparr>] \<and>
   \<lparr>HashAlg = SHA3, Hash = hello_sha3\<rparr> \<notin> set [\<lparr>HashAlg = SHA3, Hash = zero_Hash\<rparr>] \<and>
   \<lparr>HashAlg = SHA1, Hash = hello_sha1 @ string_bytes '':sha3'' @ replicate 7 0\<rparr>
     \<notin> set [\<lparr>HashAlg = SHA3, Hash = zero_Hash\<rparr>] \<and>
   \<lparr>HashAlg = SHA1, Hash = copy_bytes zero_Hash (sha1 hello)\<rparr>
     \<notin> set [\<lparr>HashAlg = SHA3, Hash = zero_Hash\<rparr>]"
proof -
  let ?s = "empty_store\<lparr>missing_refs := Some (JSONObject
        [''sha3:'' @ Hex hello_sha3, ''sha3:'' @ Hex zero_Hash, ''sha1:'' @ Hex hello_sha1])\<rparr>"
  have flag: "\<not> Update_missing_fails no_faults"
    by (simp add: no_faults_def)
  have ne: "Hex hello_sha3 \<noteq> Hex zero_Hash"
    using Hex_inject [of hello_sha3 zero_Hash] by (auto simp: hello_sha3_def zero_Hash_def replicate_numeral)
  have "missing_refs (snd (StoreObject no_faults ?s hello)) =
      missing_refs (unmarkRefsAsNeeded no_faults ?s
        [\<lparr>HashAlg = SHA1, Hash = hello_sha1 @ string_bytes '':sha3'' @ replicate 7 0\<rparr>,
         \<lparr>HashAlg = SHA3, Hash = hello_sha3\<rparr>])"
    by (rule StoreObject_success(7) [OF needy_run])
  then have "missing_refs (snd (StoreObject no_faults ?s hello)) =
      Some (JSONObject [''sha3:'' @ Hex zero_Hash])"
    using ne
    by (simp add: unmarkRefsAsNeeded_def load_missingRefs_def json_Marshal_def MarshalText_def
        no_faults_def length_hello_sha1)
  moreover have "UnmarshalText (''sha3:'' @ Hex zero_Hash) = Inr \<lparr>HashAlg = SHA3, Hash = zero_Hash\<rparr>"
    using length_zero_Hash by (rule UnmarshalText_MarshalText_SHA3)
  ultimately have refs: "RefsNeeded no_faults (snd (StoreObject no_faults ?s hello)) =
      Inr [\<lparr>HashAlg = SHA3, Hash = zero_Hash\<rparr>]"
    by (simp add: RefsNeeded_def no_faults_def)
  show ?thesis
    using StoreObject_unmarks_refs [OF needy_run, of no_faults] needy_run flag refs
    by simp
qed

text \<open>
  C8 (idempotence). When \<^verbatim>\<open>StoreObject\<close> has stored the bytes \<open>B\<close>, storing them again
  with no failure injected succeeds with the same pair of hashes: the rename replaces
  the canonical file by the same content, the blobs directory, the index entries and
  the root directory are as before, \<^verbatim>\<open>HaveObject\<close> is true for both references before and
  after, and \<^verbatim>\<open>AllHashes\<close> returns what it returned before.
\<close>

theorem StoreObject_idempotent:
  assumes "StoreObject f s B = ((h1, h3, None), s1)" and "fault_free f2 s1"
  shows "fst (StoreObject f2 s1 B) = (h1, h3, None) \<and>
         blob_files (snd (StoreObject f2 s1 B)) = blob_files s1 \<and>
         map_of (blob_files s1) (Hex h3) = Some B \<and>
         metadata (snd (StoreObject f2 s1 B)) = metadata s1 \<and>
         root_files (snd (StoreObject f2 s1 B)) = root_files s1 \<and>
         HaveObject f2 s1 \<lparr>HashAlg = SHA3, Hash = h3\<rparr> = Inr True \<and>
         HaveObject f2 s1 \<lparr>HashAlg = SHA1, Hash = h1\<rparr> = Inr True \<and>
         HaveObject f2 (snd (StoreObject f2 s1 B)) \<lparr>HashAlg = SHA3, Hash = h3\<rparr> = Inr True \<and>
         HaveObject f2 (snd (StoreObject f2 s1 B)) \<lparr>HashAlg = SHA1, Hash = h1\<rparr> = Inr True \<and>
         AllHashes f2 (snd (StoreObject f2 s1 B)) = AllHashes f2 s1"
proof -
  note st1 = StoreObject_success [OF assms(1)]
  from assms(2) have ff: "\<not> MkdirAll_fails f2" "TempFile f2 s1 \<noteq> None" "Copy_fails f2 = None"
    "\<not> Close_fails f2" "\<not> Rename_fails f2" "\<not> Update_mapping_fails f2"
    "\<not> View_fails f2" "\<not> Stat_fails f2"
    by (simp_all add: fault_free_def)
  have "fst (StoreObject f2 s1 B) =
      (sha1 B @ string_bytes '':sha3'' @ replicate 7 0, keccak256 B, None)"
    using ff(1-6) by (rule StoreObject_fault_free)
  then have fst2: "fst (StoreObject f2 s1 B) = (h1, h3, None)"
    using st1(1,2) by simp
  then have run2: "StoreObject f2 s1 B = ((h1, h3, None), snd (StoreObject f2 s1 B))"
    by (simp add: prod_eq_iff)
  note st2 = StoreObject_success [OF run2]
  have blobs: "blob_files (snd (StoreObject f2 s1 B)) = blob_files s1"
    using st2(3) st1(3) by simp
  have meta: "metadata (snd (StoreObject f2 s1 B)) = metadata s1"
    using st2(4) st1(4) by (auto intro!: ext)
  have "AllHashes f2 (snd (StoreObject f2 s1 B)) = AllHashes f2 s1"
    using blobs AllHashes_loop_cong [OF meta] ff(1)
    by (simp add: AllHashes_def ensureRootPath_def)
  moreover have "map_of (blob_files s1) (Hex h3) = Some B"
    using st1(2,3) by (simp add: update_conv')
  ultimately show ?thesis
    using fst2 blobs meta st2(5) HaveObject_stored [OF assms(1) ff(7,8)]
      HaveObject_stored [OF run2 ff(7,8)]
    by simp
qed

theorem StoreObject_idempotent_witness:
  "StoreObject no_faults empty_store hello =
     ((hello_sha1 @ string_bytes '':sha3'' @ replicate 7 0, hello_sha3, None),
      snd (StoreObject no_faults empty_store hello)) \<and>
   fault_free no_faults (snd (StoreObject no_faults empty_store hello)) \<and>
   fst (StoreObject no_faults (snd (StoreObject no_faults empty_store hello)) hello) =
     (hello_sha1 @ string_bytes '':sha3'' @ replicate 7 0, hello_sha3, None) \<and>
   blob_files (snd (StoreObject no_faults (snd (StoreObject no_faults empty_store hello)) hello)) =
     blob_files (snd (StoreObject no_faults empty_store hello)) \<and>
   metadata (snd (StoreObject no_faults (snd (StoreObject no_faults empty_store hello)) hello)) =
     metadata (snd (StoreObject no_faults empty_store hello)) \<and>
   AllHashes no_faults
     (snd (StoreObject no_faults (snd (StoreObject no_faults empty_store hello)) hello)) =
     AllHashes no_faults (snd (StoreObject no_faults empty_store hello))"
proof -
  have "root_files (snd (StoreObject no_faults empty_store hello)) = root_files empty_store"
    by (rule StoreObject_success(5) [OF hello_run])
  then have ff: "fault_free no_faults (snd (StoreObject no_faults empty_store hello))"
    by (simp add: fault_free_def no_faults_def TempFile_def empty_store_def)
  show ?thesis
    using StoreObject_idempotent [OF hello_run ff] hello_run ff by simp
qed

end
